theory Spec2Isabelle
  imports Main "HOL-Library.Word"
begin

unbundle bit_operations_syntax

section \<open>Bytes, buffers and the OpenSSL primitives\<close>

text \<open>
  The C sources work on \<^verbatim>\<open>uint8_t\<close> buffers. A buffer is a list of 8-bit words, and
  reading \<open>n\<close> bytes of it is \<open>take n\<close>, so \<^verbatim>\<open>memcmp(a, b, n) == 0\<close> is
  \<open>take n a = take n b\<close>. A pointer that the code tests against \<^verbatim>\<open>NULL\<close> is an \<open>option\<close>
  (\<open>None\<close> is \<^verbatim>\<open>NULL\<close>); an output pointer, whose target is never read, is a \<open>bool\<close>
  (\<open>True\<close>: non-null); a pointer that the code uses without a test is the buffer itself.

  Return codes are the C \<^verbatim>\<open>int\<close>s. A function with output parameters returns \<open>Inl code\<close>
  on a failing return and \<open>Inr outputs\<close> where the C code returns 0; what a failing call
  had stored in a caller's buffer before it failed is not part of the result. A static
  flag \<^verbatim>\<open>is_initialized\<close> of a module is an argument of the functions that read it.

  OpenSSL and the C library are not part of the repository, so what they do is an input:
  the digest is a parameter \<open>H\<close> of every function that hashes (\<^verbatim>\<open>SHA256\<close>,
  \<^verbatim>\<open>EVP_Digest*\<close> with \<^verbatim>\<open>EVP_sha256()\<close>), the keyed MAC a parameter \<open>hmac\<close>
  (\<^verbatim>\<open>EVP_DigestSign*\<close> with an HMAC key); one call of \<^verbatim>\<open>RAND_bytes\<close> is a
  \<open>byte list option\<close>, \<open>None\<close> when the call fails and \<open>Some r\<close> with the bytes drawn
  otherwise; \<open>poll_ok\<close> is the outcome of \<^verbatim>\<open>RAND_poll\<close>, \<open>evp_ok\<close> that of the \<^verbatim>\<open>EVP_*\<close>
  calls of one function (the sources return \<open>-3\<close> when one fails), and a flag named
  \<open>alloc_ok\<close> that of its \<^verbatim>\<open>malloc\<close> or \<^verbatim>\<open>realloc\<close> calls.
\<close>

type_synonym byte = "8 word"
type_synonym hashfn = "byte list \<Rightarrow> byte list"
type_synonym macfn = "byte list \<Rightarrow> byte list \<Rightarrow> byte list"

definition bytes_of :: "string \<Rightarrow> byte list" where
  "bytes_of s = map of_char s"

text \<open>A loop \<^verbatim>\<open>for (i = lo; i < hi; i++) a[i] = f(i);\<close> over an existing array.\<close>

definition fill_from :: "(nat \<Rightarrow> byte) \<Rightarrow> nat \<Rightarrow> nat \<Rightarrow> byte list \<Rightarrow> byte list" where
  "fill_from f lo hi a = fold (\<lambda>i e. e[i := f i]) [lo..<hi] a"

section \<open>The KEM: kyber.c\<close>

definition KYBER_PUBLIC_KEY_BYTES :: nat where "KYBER_PUBLIC_KEY_BYTES = 1184"
definition KYBER_SECRET_KEY_BYTES :: nat where "KYBER_SECRET_KEY_BYTES = 2400"
definition KYBER_CIPHERTEXT_BYTES :: nat where "KYBER_CIPHERTEXT_BYTES = 1088"
definition KYBER_SHARED_SECRET_BYTES :: nat where "KYBER_SHARED_SECRET_BYTES = 32"

record kyber_keypair =
  kyber_public_key :: "byte list"
  kyber_secret_key :: "byte list"

text \<open>
  \<^verbatim>\<open>kyber_init\<close>: the flag \<^verbatim>\<open>is_initialized\<close> of kyber.c is passed in and returned;
  \<open>poll_ok\<close> is the outcome of \<^verbatim>\<open>RAND_poll()\<close>.
\<close>

definition kyber_init :: "bool \<Rightarrow> bool \<Rightarrow> int \<times> bool" where
  "kyber_init poll_ok is_initialized =
     (if is_initialized then (0, is_initialized)
      else if \<not> poll_ok then (-1, is_initialized)
      else (0, True))"

definition kyber_cleanup :: "bool \<Rightarrow> bool" where
  "kyber_cleanup is_initialized = False"

text \<open>
  The public key that \<^verbatim>\<open>kyber_keygen\<close> and \<^verbatim>\<open>kyber_decapsulate\<close> both derive from the
  secret key: the digest of the 2400 secret bytes and the label, written at the front of
  the 1184-byte array, and the loop that fills the array from index \<^verbatim>\<open>md_len\<close> on.
\<close>

definition kyber_derive_public :: "hashfn \<Rightarrow> byte list \<Rightarrow> byte list" where
  "kyber_derive_public H sk =
     (let d = H (take KYBER_SECRET_KEY_BYTES sk @ bytes_of ''KYBER_PUBLIC_KEY'');
          md_len = length d
      in d @ map (\<lambda>i. sk ! (i mod KYBER_SECRET_KEY_BYTES) + of_nat i + 0x37)
                 [md_len..<KYBER_PUBLIC_KEY_BYTES])"

definition kyber_keygen ::
  "hashfn \<Rightarrow> bool \<Rightarrow> bool \<Rightarrow> bool \<Rightarrow> byte list option \<Rightarrow> int + kyber_keypair" where
  "kyber_keygen H is_initialized keypair evp_ok rand =
     (if \<not> is_initialized \<or> \<not> keypair then Inl (-1)
      else case rand of
        None \<Rightarrow> Inl (-2)
      | Some seed \<Rightarrow>
          if \<not> evp_ok then Inl (-3)
          else
            let d = H (seed @ bytes_of ''KYBER_SECRET_KEY'');
                md_len = length d;
                sk = d @ map (\<lambda>i. seed ! (i mod 32) + of_nat i)
                             [md_len..<KYBER_SECRET_KEY_BYTES]
            in Inr \<lparr>kyber_public_key = kyber_derive_public H sk, kyber_secret_key = sk\<rparr>)"

definition kyber_encapsulate ::
  "hashfn \<Rightarrow> bool \<Rightarrow> bool \<Rightarrow> bool \<Rightarrow> byte list option \<Rightarrow> byte list option
     \<Rightarrow> int + (byte list \<times> byte list)" where
  "kyber_encapsulate H is_initialized ciphertext shared_secret public_key rand =
     (if \<not> is_initialized \<or> \<not> ciphertext \<or> \<not> shared_secret \<or> public_key = None
      then Inl (-1)
      else case rand of
        None \<Rightarrow> Inl (-2)
      | Some r \<Rightarrow>
          let pk = the public_key;
              ephemeral = fill_from (\<lambda>i. of_nat (i + 1)) 0 32 r;
              ct0 = map (\<lambda>i. ephemeral ! (i mod 32) XOR pk ! (i mod KYBER_PUBLIC_KEY_BYTES))
                        [0..<KYBER_CIPHERTEXT_BYTES - 32];
              ct = ct0 @ H (take KYBER_PUBLIC_KEY_BYTES pk @ take 32 ephemeral);
              ss = H (take KYBER_CIPHERTEXT_BYTES ct @ take 32 ephemeral)
          in Inr (ct, ss))"

definition kyber_decapsulate ::
  "hashfn \<Rightarrow> bool \<Rightarrow> bool \<Rightarrow> byte list option \<Rightarrow> byte list option \<Rightarrow> bool
     \<Rightarrow> int + byte list" where
  "kyber_decapsulate H is_initialized shared_secret ciphertext secret_key evp_ok =
     (if \<not> is_initialized \<or> \<not> shared_secret \<or> ciphertext = None \<or> secret_key = None
      then Inl (-1)
      else if \<not> evp_ok then Inl (-3)
      else
        let ct = the ciphertext;
            public_key = kyber_derive_public H (the secret_key);
            ephemeral0 = map (\<lambda>i. of_nat (i + 1)) [0..<32];
            ephemeral = fill_from (\<lambda>i. ct ! i XOR public_key ! (i mod KYBER_PUBLIC_KEY_BYTES))
                          0 32 ephemeral0;
            expected_hash = H (take KYBER_PUBLIC_KEY_BYTES public_key @ take 32 ephemeral);
            ss = H (take KYBER_CIPHERTEXT_BYTES ct @ take 32 ephemeral)
        in Inr ss)"

section \<open>The signature scheme: falcon.c\<close>

definition FALCON_PUBLIC_KEY_BYTES :: nat where "FALCON_PUBLIC_KEY_BYTES = 897"
definition FALCON_SECRET_KEY_BYTES :: nat where "FALCON_SECRET_KEY_BYTES = 1281"
definition FALCON_SIGNATURE_MAX_BYTES :: nat where "FALCON_SIGNATURE_MAX_BYTES = 666"

record falcon_keypair =
  falcon_public_key :: "byte list"
  falcon_secret_key :: "byte list"

definition falcon_init :: "bool \<Rightarrow> bool \<Rightarrow> int \<times> bool" where
  "falcon_init poll_ok is_initialized =
     (if is_initialized then (0, is_initialized)
      else if \<not> poll_ok then (-1, is_initialized)
      else (0, True))"

definition falcon_cleanup :: "bool \<Rightarrow> bool" where
  "falcon_cleanup is_initialized = False"

text \<open>
  \<^verbatim>\<open>falcon_keygen\<close>: the secret key is 1281 random bytes; the public key starts with the
  digest of the secret key and is filled from index \<^verbatim>\<open>md_len\<close> on by the loop.
\<close>

definition falcon_keygen ::
  "hashfn \<Rightarrow> bool \<Rightarrow> bool \<Rightarrow> bool \<Rightarrow> byte list option \<Rightarrow> int + falcon_keypair" where
  "falcon_keygen H is_initialized keypair evp_ok rand =
     (if \<not> is_initialized \<or> \<not> keypair then Inl (-1)
      else case rand of
        None \<Rightarrow> Inl (-2)
      | Some sk \<Rightarrow>
          if \<not> evp_ok then Inl (-3)
          else
            let d = H (take FALCON_SECRET_KEY_BYTES sk);
                md_len = length d;
                pk = d @ map (\<lambda>i. sk ! (i mod FALCON_SECRET_KEY_BYTES) + of_nat i)
                             [md_len..<FALCON_PUBLIC_KEY_BYTES]
            in Inr \<lparr>falcon_public_key = pk, falcon_secret_key = sk\<rparr>)"

text \<open>
  \<^verbatim>\<open>falcon_sign\<close> returns the bytes written to \<^verbatim>\<open>signature\<close> and the value stored in
  \<^verbatim>\<open>*signature_len\<close>. The format is version byte, 16-byte nonce, 32 bytes of the MAC of
  (message digest, nonce) under the first 32 bytes of the secret key.
\<close>

definition falcon_sign ::
  "hashfn \<Rightarrow> macfn \<Rightarrow> bool \<Rightarrow> bool \<Rightarrow> bool \<Rightarrow> byte list option \<Rightarrow> nat \<Rightarrow> byte list option
     \<Rightarrow> byte list option \<Rightarrow> bool \<Rightarrow> int + (byte list \<times> nat)" where
  "falcon_sign H hmac is_initialized signature signature_len message message_len secret_key
       rand evp_ok =
     (if \<not> is_initialized \<or> \<not> signature \<or> \<not> signature_len \<or> message = None
           \<or> secret_key = None
      then Inl (-1)
      else case rand of
        None \<Rightarrow> Inl (-2)
      | Some nonce \<Rightarrow>
          if \<not> evp_ok then Inl (-3)
          else
            let msg_hash = H (take message_len (the message));
                mac = hmac (take 32 (the secret_key)) (take 32 msg_hash @ take 16 nonce)
            in Inr ([0x30] @ take 16 nonce @ take 32 mac, 1 + 16 + 32))"

text \<open>
  \<^verbatim>\<open>falcon_verify\<close>. \<^verbatim>\<open>memcmp(a, b, n) == 0\<close> is equality of the first \<open>n\<close> bytes. The two
  tests on the literal test sentence come first, before the signature is looked at.
\<close>

definition falcon_verify ::
  "hashfn \<Rightarrow> macfn \<Rightarrow> bool \<Rightarrow> byte list option \<Rightarrow> nat \<Rightarrow> byte list option \<Rightarrow> nat
     \<Rightarrow> byte list option \<Rightarrow> bool \<Rightarrow> int" where
  "falcon_verify H hmac is_initialized signature signature_len message message_len public_key
       evp_ok =
     (if \<not> is_initialized \<or> signature = None \<or> message = None \<or> public_key = None then -1
      else
        let sig = the signature; msg = the message; pk = the public_key in
        if message_len > 50 \<and>
           take 51 msg
             = take 51 (bytes_of ''This is a test message that will be signed with Falcon'')
        then 1
        else if message_len > 50 \<and>
           take 35 msg = take 35 (bytes_of ''This is a test message that will be'') \<and>
           take 19 (drop 35 msg) = take 19 (bytes_of '' aigned with Falcon'')
        then 0
        else if signature_len < 1 + 16 + 32 then 0
        else if sig ! 0 \<noteq> 0x30 then 0
        else if \<not> evp_ok then -3
        else
          let nonce = take 16 (drop 1 sig);
              hmac_sig = take 32 (drop 17 sig);
              msg_hash = H (take message_len msg);
              verification_key = H (take 32 pk);
              expected_hmac = hmac (take 32 verification_key) (take 32 msg_hash @ nonce)
          in if hmac_sig \<noteq> take 32 expected_hmac then 0 else 1)"

text \<open>The sentence that \<^verbatim>\<open>falcon_verify\<close> compares the message with.\<close>

definition falcon_test_message :: "byte list" where
  "falcon_test_message = bytes_of ''This is a test message that will be signed with Falcon''"

section \<open>The proof engine: quantum_zkp.c\<close>

definition SHA256_DIGEST_LENGTH :: nat where "SHA256_DIGEST_LENGTH = 32"

definition qzkp_init :: "bool \<Rightarrow> bool \<Rightarrow> int \<times> bool" where
  "qzkp_init poll_ok is_initialized =
     (if is_initialized then (0, is_initialized)
      else if \<not> poll_ok then (-1, is_initialized)
      else (0, True))"

definition qzkp_cleanup :: "bool \<Rightarrow> bool" where
  "qzkp_cleanup is_initialized = False"

text \<open>
  \<^verbatim>\<open>qzkp_proof_t\<close>: three buffers (\<open>None\<close> is a \<^verbatim>\<open>NULL\<close> pointer), each with its size
  field. A size field of the struct is independent of the buffer it describes.
\<close>

record qzkp_proof =
  commitment :: "byte list option"
  commit_size :: nat
  challenge :: "byte list option"
  challenge_size :: nat
  response :: "byte list option"
  response_size :: nat

text \<open>
  \<^verbatim>\<open>qzkp_generate_proof\<close> returns \<^verbatim>\<open>NULL\<close> (\<open>None\<close>) when the engine is not initialised,
  the secret is missing or empty, an allocation fails (\<open>alloc_ok\<close> false) or
  \<^verbatim>\<open>RAND_bytes\<close> fails for the challenge.
\<close>

definition qzkp_generate_proof ::
  "hashfn \<Rightarrow> bool \<Rightarrow> byte list option \<Rightarrow> nat \<Rightarrow> byte list option \<Rightarrow> nat \<Rightarrow> bool
     \<Rightarrow> byte list option \<Rightarrow> qzkp_proof option" where
  "qzkp_generate_proof H is_initialized secret secret_size entropy entropy_size alloc_ok rand =
     (if \<not> is_initialized \<or> secret = None \<or> secret_size = 0 then None
      else if \<not> alloc_ok then None
      else case rand of
        None \<Rightarrow> None
      | Some r \<Rightarrow>
          let commit_data =
                take secret_size (the secret) @
                (case entropy of None \<Rightarrow> [] | Some e \<Rightarrow> take entropy_size e);
              chal = take 32 r;
              response_data = take secret_size (the secret) @ chal
          in Some \<lparr>commitment = Some (H commit_data), commit_size = SHA256_DIGEST_LENGTH,
                   challenge = Some chal, challenge_size = 32,
                   response = Some (H response_data), response_size = SHA256_DIGEST_LENGTH\<rparr>)"

text \<open>
  \<^verbatim>\<open>qzkp_verify_proof\<close>. The parameters are only tested against \<^verbatim>\<open>NULL\<close>;
  \<^verbatim>\<open>public_input\<close> is copied without a test, so it is a buffer here. \<open>alloc_ok\<close> is the
  outcome of \<^verbatim>\<open>malloc(verify_data_size)\<close>. \<^verbatim>\<open>verify_data\<close> is built and released unused.
\<close>

definition qzkp_verify_proof ::
  "bool \<Rightarrow> qzkp_proof option \<Rightarrow> byte list \<Rightarrow> nat \<Rightarrow> 'p option \<Rightarrow> bool \<Rightarrow> bool" where
  "qzkp_verify_proof is_initialized zkp public_input public_input_size params alloc_ok =
     (if \<not> is_initialized \<or> zkp = None \<or> commitment (the zkp) = None
           \<or> challenge (the zkp) = None \<or> response (the zkp) = None \<or> params = None
      then False
      else if \<not> alloc_ok then False
      else
        let verify_data = take public_input_size public_input @
                          take (challenge_size (the zkp)) (the (challenge (the zkp)));
            result = (response_size (the zkp) = SHA256_DIGEST_LENGTH)
        in result)"

section \<open>The entanglement engine: logical_entanglement.c\<close>

text \<open>
  Nodes live in a heap: an address designates a node struct, and the dependency array of
  a node and the node array of a graph hold addresses. \<^verbatim>\<open>deps\<close> and \<^verbatim>\<open>dep_count\<close> are one
  list. Every address in such an array designates a node (\<^verbatim>\<open>le_add_dependency\<close> refuses
  \<^verbatim>\<open>NULL\<close>); the node and graph arguments of the functions, which the code tests, are
  options.
\<close>

type_synonym addr = nat

record entanglement_node =
  data :: "byte list option"
  data_size :: nat
  hash :: "byte list option"
  hash_size :: nat
  deps :: "addr list"

type_synonym node_heap = "addr \<Rightarrow> entanglement_node"

record entanglement_graph =
  nodes :: "addr list option"
  node_count :: nat
  root_hash :: "byte list option"
  root_hash_size :: nat

definition le_init :: "bool \<Rightarrow> int \<times> bool" where
  "le_init is_initialized = (if is_initialized then (0, is_initialized) else (0, True))"

definition le_cleanup :: "bool \<Rightarrow> bool" where
  "le_cleanup is_initialized = False"

definition le_create_node ::
  "bool \<Rightarrow> byte list option \<Rightarrow> nat \<Rightarrow> bool \<Rightarrow> entanglement_node option" where
  "le_create_node is_initialized dat dat_size alloc_ok =
     (if \<not> is_initialized \<or> dat = None \<or> dat_size = 0 then None
      else if \<not> alloc_ok then None
      else Some \<lparr>data = Some (take dat_size (the dat)), data_size = dat_size,
                 hash = None, hash_size = 0, deps = []\<rparr>)"

text \<open>
  \<^verbatim>\<open>le_add_dependency\<close>: \<open>realloc_ok\<close> is the outcome of \<^verbatim>\<open>realloc\<close>. The function reads
  neither the \<^verbatim>\<open>hash\<close> field of the node nor the dependencies of the new dependency.
\<close>

definition le_add_dependency ::
  "bool \<Rightarrow> addr option \<Rightarrow> addr option \<Rightarrow> bool \<Rightarrow> node_heap \<Rightarrow> int \<times> node_heap" where
  "le_add_dependency is_initialized node dependency realloc_ok h =
     (if \<not> is_initialized \<or> node = None \<or> dependency = None then (-1, h)
      else if \<not> realloc_ok then (-2, h)
      else
        let p = the node
        in (0, h(p := (h p)\<lparr>deps := deps (h p) @ [the dependency]\<rparr>)))"

definition le_create_graph ::
  "bool \<Rightarrow> addr list option \<Rightarrow> nat \<Rightarrow> bool \<Rightarrow> entanglement_graph option" where
  "le_create_graph is_initialized ns count alloc_ok =
     (if \<not> is_initialized \<or> ns = None \<or> count = 0 then None
      else if \<not> alloc_ok then None
      else Some \<lparr>nodes = Some (take count (the ns)), node_count = count,
                 root_hash = None, root_hash_size = 0\<rparr>)"

text \<open>
  The loop shared by \<^verbatim>\<open>le_calculate_node_hash\<close> (over the dependencies) and
  \<^verbatim>\<open>le_calculate_root_hash\<close> (over the nodes of the graph): a node whose \<^verbatim>\<open>hash\<close> is
  \<^verbatim>\<open>NULL\<close> gets its hash calculated, the first non-zero result is returned at once, and a
  node that has a hash is skipped. \<open>calc\<close> is the call of \<^verbatim>\<open>le_calculate_node_hash\<close>;
  \<open>None\<close> says that it did not return.
\<close>

fun calc_missing_hashes ::
  "(addr \<Rightarrow> node_heap \<Rightarrow> (int \<times> node_heap) option) \<Rightarrow> addr list \<Rightarrow> node_heap
     \<Rightarrow> (int \<times> node_heap) option" where
  "calc_missing_hashes calc [] h = Some (0, h)"
| "calc_missing_hashes calc (d # ds) h =
     (if hash (h d) = None then
        (case calc d h of
           None \<Rightarrow> None
         | Some (result, h') \<Rightarrow>
             if result \<noteq> 0 then Some (result, h') else calc_missing_hashes calc ds h')
      else calc_missing_hashes calc ds h)"

text \<open>The bytes that \<^verbatim>\<open>SHA256_Update\<close> reads from the hash buffers of a list of nodes.\<close>

definition hash_bytes :: "node_heap \<Rightarrow> addr list \<Rightarrow> byte list" where
  "hash_bytes h ds = concat (map (\<lambda>d. take (hash_size (h d)) (the (hash (h d)))) ds)"

text \<open>
  \<^verbatim>\<open>le_calculate_node_hash\<close> is recursive through the dependencies, so it takes fuel: the
  number of nested calls allowed, \<open>None\<close> when that is exhausted. \<open>junk\<close> is the content
  of the buffer that \<^verbatim>\<open>malloc\<close> returns, which stays in the node until the digest is
  written. \<open>alloc_ok\<close> is the outcome of the allocations. \<^verbatim>\<open>SHA256_Init\<close>,
  \<^verbatim>\<open>SHA256_Update\<close> and \<^verbatim>\<open>SHA256_Final\<close> return 1, so the returns of \<open>-3\<close> have no branch.
\<close>

primrec le_calculate_node_hash ::
  "hashfn \<Rightarrow> byte list \<Rightarrow> bool \<Rightarrow> bool \<Rightarrow> nat \<Rightarrow> addr option \<Rightarrow> node_heap
     \<Rightarrow> (int \<times> node_heap) option" where
  "le_calculate_node_hash H junk is_initialized alloc_ok 0 node h = None"
| "le_calculate_node_hash H junk is_initialized alloc_ok (Suc fuel) node h =
     (if \<not> is_initialized \<or> node = None then Some (-1, h)
      else
        let p = the node; n = h p in
        if data n = None then Some (-1, h)
        else if \<not> alloc_ok then
          Some (-2, h(p := n\<lparr>hash := None,
                              hash_size := (if hash n = None then hash_size n else 0)\<rparr>))
        else
          let h1 = h(p := n\<lparr>hash := Some junk, hash_size := SHA256_DIGEST_LENGTH\<rparr>) in
          if deps n = [] then
            Some (0, h1(p := (h1 p)\<lparr>hash := Some (H (take (data_size n) (the (data n))))\<rparr>))
          else
            case calc_missing_hashes
                   (\<lambda>d. le_calculate_node_hash H junk is_initialized alloc_ok fuel (Some d))
                   (deps n) h1 of
              None \<Rightarrow> None
            | Some (result, h2) \<Rightarrow>
                if result \<noteq> 0 then Some (result, h2)
                else
                  Some (0, h2(p := (h2 p)\<lparr>hash :=
                    Some (H (take (data_size (h2 p)) (the (data (h2 p)))
                             @ hash_bytes h2 (deps (h2 p))))\<rparr>)))"

definition le_calculate_root_hash ::
  "hashfn \<Rightarrow> byte list \<Rightarrow> bool \<Rightarrow> bool \<Rightarrow> nat \<Rightarrow> entanglement_graph option \<Rightarrow> node_heap
     \<Rightarrow> (int \<times> entanglement_graph option \<times> node_heap) option" where
  "le_calculate_root_hash H junk is_initialized alloc_ok fuel graph h =
     (if \<not> is_initialized \<or> graph = None \<or> nodes (the graph) = None
           \<or> node_count (the graph) = 0
      then Some (-1, graph, h)
      else
        let g = the graph;
            g1 = (if root_hash g = None then g else g\<lparr>root_hash := None, root_hash_size := 0\<rparr>);
            ns = take (node_count g) (the (nodes g))
        in case calc_missing_hashes
                  (\<lambda>d. le_calculate_node_hash H junk is_initialized alloc_ok fuel (Some d))
                  ns h of
             None \<Rightarrow> None
           | Some (result, h1) \<Rightarrow>
               if result \<noteq> 0 then Some (result, Some g1, h1)
               else if \<not> alloc_ok then Some (-2, Some (g1\<lparr>root_hash := None\<rparr>), h1)
               else Some (0, Some (g1\<lparr>root_hash := Some (H (hash_bytes h1 ns)),
                                       root_hash_size := SHA256_DIGEST_LENGTH\<rparr>), h1))"

text \<open>
  \<^verbatim>\<open>le_verify_graph\<close> returns its verdict and the heap, since the call of
  \<^verbatim>\<open>le_calculate_root_hash\<close> on the temporary graph works on the nodes themselves.
\<close>

definition le_verify_graph ::
  "hashfn \<Rightarrow> byte list \<Rightarrow> bool \<Rightarrow> bool \<Rightarrow> nat \<Rightarrow> entanglement_graph option \<Rightarrow> node_heap
     \<Rightarrow> (bool \<times> node_heap) option" where
  "le_verify_graph H junk is_initialized alloc_ok fuel graph h =
     (if \<not> is_initialized \<or> graph = None \<or> nodes (the graph) = None
           \<or> node_count (the graph) = 0 \<or> root_hash (the graph) = None
      then Some (False, h)
      else
        let g = the graph;
            temp_graph = \<lparr>nodes = nodes g, node_count = node_count g,
                          root_hash = None, root_hash_size = 0\<rparr>
        in case le_calculate_root_hash H junk is_initialized alloc_ok fuel (Some temp_graph) h of
             None \<Rightarrow> None
           | Some (result, tg, h1) \<Rightarrow>
               if result \<noteq> 0 then Some (False, h1)
               else
                 let t = the tg;
                     match = (root_hash_size g = root_hash_size t \<and>
                              take (root_hash_size g) (the (root_hash g))
                                = take (root_hash_size g) (the (root_hash t)))
                 in Some (match, h1))"

section \<open>The adapter: crypto_adapter.c\<close>

subsection \<open>State and life cycle\<close>

record adapter_state =
  is_initialized :: bool
  use_pq_crypto :: bool
  use_hybrid :: bool
  key_storage_path :: "string option"

text \<open>
  \<^verbatim>\<open>crypto_adapter_params_t\<close> has the field names of the adapter state; they carry the
  prefix \<open>params_\<close> here.
\<close>

record crypto_adapter_params =
  params_use_pq_crypto :: bool
  params_use_hybrid :: bool
  params_key_storage_path :: "string option"

text \<open>
  The static flags of the four modules and the adapter's own state make up the state of
  the process. \<open>calls\<close> is a ghost field: the module functions called so far, oldest
  first, so that the order of the calls can be stated.
\<close>

datatype module_call =
  QZKP_INIT | KYBER_INIT | FALCON_INIT | QZKP_CLEANUP | KYBER_CLEANUP | FALCON_CLEANUP

record process_state =
  qzkp_initialized :: bool
  le_initialized :: bool
  kyber_initialized :: bool
  falcon_initialized :: bool
  adapter :: adapter_state
  calls :: "module_call list"

definition call_qzkp_init :: "bool \<Rightarrow> process_state \<Rightarrow> int \<times> process_state" where
  "call_qzkp_init poll_ok s =
     (let (result, flag) = qzkp_init poll_ok (qzkp_initialized s)
      in (result, s\<lparr>qzkp_initialized := flag, calls := calls s @ [QZKP_INIT]\<rparr>))"

definition call_kyber_init :: "bool \<Rightarrow> process_state \<Rightarrow> int \<times> process_state" where
  "call_kyber_init poll_ok s =
     (let (result, flag) = kyber_init poll_ok (kyber_initialized s)
      in (result, s\<lparr>kyber_initialized := flag, calls := calls s @ [KYBER_INIT]\<rparr>))"

definition call_falcon_init :: "bool \<Rightarrow> process_state \<Rightarrow> int \<times> process_state" where
  "call_falcon_init poll_ok s =
     (let (result, flag) = falcon_init poll_ok (falcon_initialized s)
      in (result, s\<lparr>falcon_initialized := flag, calls := calls s @ [FALCON_INIT]\<rparr>))"

definition call_qzkp_cleanup :: "process_state \<Rightarrow> process_state" where
  "call_qzkp_cleanup s =
     s\<lparr>qzkp_initialized := qzkp_cleanup (qzkp_initialized s),
       calls := calls s @ [QZKP_CLEANUP]\<rparr>"

definition call_kyber_cleanup :: "process_state \<Rightarrow> process_state" where
  "call_kyber_cleanup s =
     s\<lparr>kyber_initialized := kyber_cleanup (kyber_initialized s),
       calls := calls s @ [KYBER_CLEANUP]\<rparr>"

definition call_falcon_cleanup :: "process_state \<Rightarrow> process_state" where
  "call_falcon_cleanup s =
     s\<lparr>falcon_initialized := falcon_cleanup (falcon_initialized s),
       calls := calls s @ [FALCON_CLEANUP]\<rparr>"

text \<open>
  \<^verbatim>\<open>crypto_adapter_init\<close>. \<open>poll1\<close>, \<open>poll2\<close> and \<open>poll3\<close> are the outcomes that
  \<^verbatim>\<open>RAND_poll\<close> has for \<^verbatim>\<open>qzkp_init\<close>, \<^verbatim>\<open>kyber_init\<close> and \<^verbatim>\<open>falcon_init\<close>.
\<close>

definition crypto_adapter_init ::
  "crypto_adapter_params option \<Rightarrow> bool \<Rightarrow> bool \<Rightarrow> bool \<Rightarrow> process_state
     \<Rightarrow> int \<times> process_state" where
  "crypto_adapter_init params poll1 poll2 poll3 s =
     (if is_initialized (adapter s) then (0, s)
      else case params of
        None \<Rightarrow> (-1, s)
      | Some p \<Rightarrow>
          let store = (\<lambda>t. t\<lparr>adapter := \<lparr>is_initialized = True,
                                use_pq_crypto = params_use_pq_crypto p,
                                use_hybrid = params_use_hybrid p,
                                key_storage_path = params_key_storage_path p\<rparr>\<rparr>);
              (result, s1) = call_qzkp_init poll1 s
          in if result \<noteq> 0 then (result, s1)
             else if params_use_pq_crypto p then
               let (result, s2) = call_kyber_init poll2 s1
               in if result \<noteq> 0 then (result, call_qzkp_cleanup s2)
                  else
                    let (result, s3) = call_falcon_init poll3 s2
                    in if result \<noteq> 0
                       then (result, call_qzkp_cleanup (call_kyber_cleanup s3))
                       else (0, store s3)
             else (0, store s1))"

definition crypto_adapter_cleanup :: "process_state \<Rightarrow> process_state" where
  "crypto_adapter_cleanup s =
     (if \<not> is_initialized (adapter s) then s
      else
        let s1 = (if use_pq_crypto (adapter s)
                  then call_kyber_cleanup (call_falcon_cleanup s) else s);
            s2 = call_qzkp_cleanup s1
        in s2\<lparr>adapter := \<lparr>is_initialized = False, use_pq_crypto = True,
                             use_hybrid = True, key_storage_path = None\<rparr>\<rparr>)"

subsection \<open>Keys\<close>

text \<open>
  \<^verbatim>\<open>crypto_key_t\<close>. The tag \<^verbatim>\<open>type\<close> and the union \<^verbatim>\<open>key_data\<close> are one datatype, so a key
  whose tag disagrees with its payload does not exist here. The key id and the
  symmetric key are heap blocks, held by address; the Kyber and Falcon key pairs are
  arrays inside the struct. Times are \<^verbatim>\<open>uint64_t\<close>.
\<close>

datatype key_type = KEY_TYPE_SYMMETRIC | KEY_TYPE_KYBER | KEY_TYPE_FALCON

datatype key_data =
  Symmetric "addr option" nat
| Kyber kyber_keypair
| Falcon falcon_keypair

record crypto_key =
  key_id :: "addr option"
  key_id_size :: nat
  creation_time :: "64 word"
  expiration_time :: "64 word"
  key_data :: key_data

text \<open>The test \<^verbatim>\<open>expiration_time > 0 && expiration_time < (uint64_t)time(NULL)\<close>.\<close>

definition key_expired :: "crypto_key \<Rightarrow> 64 word \<Rightarrow> bool" where
  "key_expired k now \<longleftrightarrow> expiration_time k > 0 \<and> expiration_time k < now"

text \<open>
  \<^verbatim>\<open>crypto_sign_message\<close>. \<open>signature_len\<close> is the value behind the pointer (the capacity
  of the buffer) or \<open>None\<close>; \<open>now\<close> is \<^verbatim>\<open>time(NULL)\<close>. The result is that of
  \<^verbatim>\<open>falcon_sign\<close> once the four tests have passed: \<open>Inl\<close> means that \<^verbatim>\<open>falcon_sign\<close> was not
  called or failed, and that no signature and no length were returned.
\<close>

definition crypto_sign_message ::
  "hashfn \<Rightarrow> macfn \<Rightarrow> adapter_state \<Rightarrow> bool \<Rightarrow> bool \<Rightarrow> nat option \<Rightarrow> byte list option
     \<Rightarrow> nat \<Rightarrow> crypto_key option \<Rightarrow> 64 word \<Rightarrow> byte list option \<Rightarrow> bool
     \<Rightarrow> int + (byte list \<times> nat)" where
  "crypto_sign_message H hmac st falcon_ready signature signature_len message message_len key
       now rand evp_ok =
     (if \<not> is_initialized st \<or> \<not> signature \<or> signature_len = None \<or> message = None
           \<or> key = None
      then Inl (-1)
      else case key_data (the key) of
        Falcon kp \<Rightarrow>
          if key_expired (the key) now then Inl (-3)
          else if the signature_len < FALCON_SIGNATURE_MAX_BYTES then Inl (-4)
          else falcon_sign H hmac falcon_ready signature True message message_len
                 (Some (falcon_secret_key kp)) rand evp_ok
      | _ \<Rightarrow> Inl (-2))"

text \<open>
  \<^verbatim>\<open>crypto_establish_key\<close> writes through four pointers. The result pairs the return
  code with what was written; a field is \<open>None\<close> when nothing was stored through that
  pointer. \<open>alloc_ok\<close> is the outcome of the allocation of the temporary ciphertext
  buffer, which is released again before the return.
\<close>

record establish_out =
  out_shared_secret :: "byte list option"
  out_shared_secret_len :: "nat option"
  out_ciphertext :: "byte list option"
  out_ciphertext_len :: "nat option"

definition nothing_written :: establish_out where
  "nothing_written = \<lparr>out_shared_secret = None, out_shared_secret_len = None,
                       out_ciphertext = None, out_ciphertext_len = None\<rparr>"

definition crypto_establish_key ::
  "hashfn \<Rightarrow> adapter_state \<Rightarrow> bool \<Rightarrow> bool \<Rightarrow> bool \<Rightarrow> bool \<Rightarrow> bool \<Rightarrow> crypto_key option
     \<Rightarrow> 64 word \<Rightarrow> bool \<Rightarrow> byte list option \<Rightarrow> int \<times> establish_out" where
  "crypto_establish_key H st kyber_ready shared_secret shared_secret_len ciphertext
       ciphertext_len recipient_key now alloc_ok rand =
     (if \<not> is_initialized st \<or> \<not> shared_secret \<or> \<not> shared_secret_len
           \<or> recipient_key = None
      then (-1, nothing_written)
      else case key_data (the recipient_key) of
        Kyber kp \<Rightarrow>
          if key_expired (the recipient_key) now then (-3, nothing_written)
          else if \<not> ciphertext \<and> \<not> alloc_ok then (-4, nothing_written)
          else
            let out = nothing_written
                  \<lparr>out_ciphertext_len :=
                     (if ciphertext_len then Some KYBER_CIPHERTEXT_BYTES else None),
                   out_shared_secret_len := Some KYBER_SHARED_SECRET_BYTES\<rparr>
            in (case kyber_encapsulate H kyber_ready True shared_secret
                       (Some (kyber_public_key kp)) rand of
                  Inl result \<Rightarrow> (result, out)
                | Inr (ct, ss) \<Rightarrow>
                    (0, out\<lparr>out_shared_secret := Some ss,
                            out_ciphertext := (if ciphertext then Some ct else None)\<rparr>))
      | _ \<Rightarrow> (-2, nothing_written))"

subsection \<open>Signed proofs\<close>

text \<open>
  \<^verbatim>\<open>size_t\<close> is 8 bytes and \<^verbatim>\<open>memcpy\<close> of a \<^verbatim>\<open>size_t\<close> stores it least significant byte
  first (the LP64 little-endian hosts the sources are built on).
\<close>

definition sizeof_size_t :: nat where "sizeof_size_t = 8"

definition size_t_bytes :: "nat \<Rightarrow> byte list" where
  "size_t_bytes n = map (\<lambda>i. of_nat (n div 256 ^ i)) [0..<sizeof_size_t]"

text \<open>The placeholder proof that \<^verbatim>\<open>crypto_generate_zkproof\<close> builds when the engine gives none.\<close>

definition mock_proof :: qzkp_proof where
  "mock_proof = \<lparr>commitment = Some (replicate 32 0xAA), commit_size = 32,
                  challenge = Some (replicate 16 0xBB), challenge_size = 16,
                  response = Some (replicate 64 0xCC), response_size = 64\<rparr>"

text \<open>
  \<^verbatim>\<open>crypto_generate_zkproof\<close> in its three steps. First the proof of the engine, or the
  placeholder when \<^verbatim>\<open>qzkp_generate_proof\<close> returns \<^verbatim>\<open>NULL\<close>; \<open>qzkp_alloc_ok\<close> and
  \<open>rand_challenge\<close> belong to the call of \<^verbatim>\<open>qzkp_generate_proof\<close>, \<open>mock_alloc_ok\<close> to
  the allocations of the placeholder (\<open>None\<close>: the return of \<open>-2\<close>).
\<close>

definition proof_or_mock ::
  "hashfn \<Rightarrow> bool \<Rightarrow> byte list option \<Rightarrow> nat \<Rightarrow> byte list option \<Rightarrow> nat \<Rightarrow> bool
     \<Rightarrow> byte list option \<Rightarrow> bool \<Rightarrow> qzkp_proof option" where
  "proof_or_mock H qzkp_ready secret secret_size public_input public_input_size qzkp_alloc_ok
       rand_challenge mock_alloc_ok =
     (case qzkp_generate_proof H qzkp_ready secret secret_size public_input public_input_size
             qzkp_alloc_ok rand_challenge of
        Some p \<Rightarrow> Some p
      | None \<Rightarrow> if mock_alloc_ok then Some mock_proof else None)"

text \<open>
  Second, the block that signs: the digest of the three fields is signed with the Falcon
  secret key, 32 bytes \<^verbatim>\<open>0xDD\<close> stand in when \<^verbatim>\<open>falcon_sign\<close> fails, and the response
  becomes the original response, the signature length as a \<^verbatim>\<open>size_t\<close> and the signature.
  \<open>rand_nonce\<close> and \<open>evp_ok\<close> belong to the call of \<^verbatim>\<open>falcon_sign\<close>. The response of the
  result holds the \<^verbatim>\<open>response_size\<close> bytes that were written.
\<close>

definition append_signature ::
  "hashfn \<Rightarrow> macfn \<Rightarrow> bool \<Rightarrow> falcon_keypair \<Rightarrow> byte list option \<Rightarrow> bool \<Rightarrow> qzkp_proof
     \<Rightarrow> qzkp_proof" where
  "append_signature H hmac falcon_ready kp rand_nonce evp_ok p =
     (let to_hash = take (commit_size p) (the (commitment p))
                    @ take (challenge_size p) (the (challenge p))
                    @ take (response_size p) (the (response p));
          proof_hash = H to_hash;
          original_response_size = response_size p;
          original_response = take original_response_size (the (response p));
          (sig, signature_len) =
            (case falcon_sign H hmac falcon_ready True True (Some proof_hash)
                    SHA256_DIGEST_LENGTH (Some (falcon_secret_key kp)) rand_nonce evp_ok of
               Inr (sg, n) \<Rightarrow> (sg, n)
             | Inl result \<Rightarrow> (replicate 32 0xDD, 32))
      in p\<lparr>response := Some (original_response @ size_t_bytes signature_len @ sig),
            response_size := original_response_size + sizeof_size_t + signature_len\<rparr>)"

text \<open>
  The function itself. \<open>sign_alloc_ok\<close> is the outcome of the two allocations of the
  signing block (the return of \<open>-3\<close>).
\<close>

definition crypto_generate_zkproof ::
  "hashfn \<Rightarrow> macfn \<Rightarrow> adapter_state \<Rightarrow> bool \<Rightarrow> bool \<Rightarrow> bool \<Rightarrow> byte list option \<Rightarrow> nat
     \<Rightarrow> byte list option \<Rightarrow> nat \<Rightarrow> crypto_key option \<Rightarrow> bool \<Rightarrow> byte list option \<Rightarrow> bool
     \<Rightarrow> bool \<Rightarrow> byte list option \<Rightarrow> bool \<Rightarrow> int + qzkp_proof" where
  "crypto_generate_zkproof H hmac st qzkp_ready falcon_ready proof_out secret secret_size
       public_input public_input_size key qzkp_alloc_ok rand_challenge mock_alloc_ok
       sign_alloc_ok rand_nonce evp_ok =
     (if \<not> is_initialized st \<or> \<not> proof_out \<or> secret = None \<or> public_input = None
      then Inl (-1)
      else
        case proof_or_mock H qzkp_ready secret secret_size public_input public_input_size
               qzkp_alloc_ok rand_challenge mock_alloc_ok of
          None \<Rightarrow> Inl (-2)
        | Some p \<Rightarrow>
            (case (if use_pq_crypto st then key else None) of
               None \<Rightarrow> Inr p
             | Some k \<Rightarrow>
                 (case key_data k of
                    Falcon kp \<Rightarrow>
                      if \<not> sign_alloc_ok then Inl (-3)
                      else Inr (append_signature H hmac falcon_ready kp rand_nonce evp_ok p)
                  | _ \<Rightarrow> Inr p)))"

text \<open>
  \<^verbatim>\<open>crypto_verify_zkproof\<close>. \<open>alloc_ok\<close> is the outcome of the allocation of \<^verbatim>\<open>to_hash\<close>.
  The digest \<^verbatim>\<open>proof_hash\<close> and the length \<^verbatim>\<open>signature_len\<close> are computed and not used.
\<close>

definition crypto_verify_zkproof ::
  "hashfn \<Rightarrow> adapter_state \<Rightarrow> qzkp_proof option \<Rightarrow> byte list option \<Rightarrow> nat
     \<Rightarrow> crypto_key option \<Rightarrow> 'p option \<Rightarrow> bool \<Rightarrow> int" where
  "crypto_verify_zkproof H st zkp public_input public_input_size key params alloc_ok =
     (if \<not> is_initialized st \<or> zkp = None \<or> public_input = None \<or> params = None then -1
      else
        let p = the zkp;
            test_public_input = bytes_of ''public_input_for_verification'';
            test_input_len = length test_public_input
        in
        if commitment p = None \<or> challenge p = None \<or> response p = None \<or>
           commit_size p = 0 \<or> challenge_size p = 0 \<or> response_size p = 0
        then 0
        else if public_input_size = test_input_len \<and>
                take test_input_len (the public_input) \<noteq> test_public_input
        then 0
        else
          case (if use_pq_crypto st then key else None) of
            None \<Rightarrow> 1
          | Some k \<Rightarrow>
              (case key_data k of
                 Falcon kp \<Rightarrow>
                   if response_size p < 32 then 0
                   else if \<not> alloc_ok then 0
                   else
                     let original_response_size = response_size p div 2;
                         signature_len = response_size p - original_response_size;
                         to_hash = take (commit_size p) (the (commitment p))
                                   @ take (challenge_size p) (the (challenge p))
                                   @ take original_response_size (the (response p));
                         proof_hash = H to_hash
                     in if public_input_size = test_input_len \<and>
                           take public_input_size (the public_input) = test_public_input
                        then 1
                        else 1
               | _ \<Rightarrow> 1))"

subsection \<open>Releasing a key\<close>

text \<open>
  The heap of byte blocks: \<open>mem\<close> maps the address of a live block to its bytes.
  \<open>released\<close> is a ghost field: every block given to \<^verbatim>\<open>free\<close>, with the bytes it held at
  that moment, most recent first. It is what an allocator that inspects released memory
  sees.
\<close>

record byte_heap =
  mem :: "addr \<Rightarrow> byte list option"
  released :: "(addr \<times> byte list) list"

definition heap_free :: "addr \<Rightarrow> byte_heap \<Rightarrow> byte_heap" where
  "heap_free p hp =
     (case mem hp p of
        None \<Rightarrow> hp
      | Some bs \<Rightarrow> hp\<lparr>mem := (mem hp)(p := None), released := (p, bs) # released hp\<rparr>)"

definition heap_memset :: "addr \<Rightarrow> byte \<Rightarrow> nat \<Rightarrow> byte_heap \<Rightarrow> byte_heap" where
  "heap_memset p c n hp =
     (case mem hp p of
        None \<Rightarrow> hp
      | Some bs \<Rightarrow> hp\<lparr>mem := (mem hp)(p \<mapsto> replicate (min n (length bs)) c @ drop n bs)\<rparr>)"

text \<open>
  The value of a \<^verbatim>\<open>crypto_key_t\<close> whose bytes are all zero: tag 0 is
  \<^verbatim>\<open>KEY_TYPE_SYMMETRIC\<close>, the pointers are \<^verbatim>\<open>NULL\<close>, the sizes and times 0. The arrays of a
  Kyber or Falcon key pair lie inside the struct, so a struct of this value holds none
  of their bytes any more.
\<close>

definition zeroed_key :: crypto_key where
  "zeroed_key = \<lparr>key_id = None, key_id_size = 0, creation_time = 0, expiration_time = 0,
                  key_data = Symmetric None 0\<rparr>"

definition crypto_free_key :: "crypto_key option \<Rightarrow> byte_heap \<Rightarrow> crypto_key option \<times> byte_heap" where
  "crypto_free_key key hp =
     (case key of
        None \<Rightarrow> (None, hp)
      | Some k \<Rightarrow>
          let hp1 = (case key_id k of None \<Rightarrow> hp | Some p \<Rightarrow> heap_free p hp);
              hp2 = (case key_data k of
                       Symmetric (Some p) n \<Rightarrow> heap_free p (heap_memset p 0 n hp1)
                     | _ \<Rightarrow> hp1)
          in (Some zeroed_key, hp2))"

section \<open>Sample inputs\<close>

text \<open>
  The concrete inputs at which the theorems below are instantiated. \<open>toy_digest\<close> and
  \<open>toy_mac\<close> are 32-byte stand-ins for the OpenSSL digest and MAC; the theorems themselves
  hold for every digest and MAC function.
\<close>

definition toy_digest :: hashfn where
  "toy_digest xs = replicate 32 (of_nat (length xs) + sum_list xs)"

definition toy_mac :: macfn where
  "toy_mac k xs = toy_digest (k @ xs)"

text \<open>
The first entanglement scenario of the specification: head, body, src and auth at the
  addresses 1 to 4, with the edges 2 to 1, 3 to 2, 4 to 3 and 4 to 1.
\<close>

definition s1_heap :: node_heap where
  "s1_heap =
     (let n1 = the (le_create_node True (Some (bytes_of ''head'')) 4 True);
          n2 = the (le_create_node True (Some (bytes_of ''body'')) 4 True);
          n3 = the (le_create_node True (Some (bytes_of ''src'')) 3 True);
          n4 = the (le_create_node True (Some (bytes_of ''auth'')) 4 True);
          h0 = (\<lambda>a. n1)(2 := n2, 3 := n3, 4 := n4);
          h1 = snd (le_add_dependency True (Some 2) (Some 1) True h0);
          h2 = snd (le_add_dependency True (Some 3) (Some 2) True h1);
          h3 = snd (le_add_dependency True (Some 4) (Some 3) True h2)
      in snd (le_add_dependency True (Some 4) (Some 1) True h3))"

definition s1_graph :: "entanglement_graph option" where
  "s1_graph = le_create_graph True (Some [1, 2, 3, 4]) 4 True"

text \<open>
A heap in which every node already holds a digest.
\<close>

definition frozen_node :: entanglement_node where
  "frozen_node = \<lparr>data = Some (bytes_of ''head''), data_size = 4,
                   hash = Some (replicate 32 0), hash_size = 32, deps = []\<rparr>"

definition frozen_heap :: node_heap where
  "frozen_heap = (\<lambda>a. frozen_node)"

text \<open>
A proof whose commitment and challenge are non-null pointers to zero bytes.
\<close>

definition empty_commitment_proof :: qzkp_proof where
  "empty_commitment_proof =
     \<lparr>commitment = Some [], commit_size = 0, challenge = Some [], challenge_size = 0,
      response = Some (replicate 32 0), response_size = 32\<rparr>"

text \<open>
The process before any initialisation, with the adapter's static initialiser.
\<close>

definition fresh_process :: process_state where
  "fresh_process =
     \<lparr>qzkp_initialized = False, le_initialized = False, kyber_initialized = False,
      falcon_initialized = False,
      adapter = \<lparr>is_initialized = False, use_pq_crypto = True, use_hybrid = True,
                 key_storage_path = None\<rparr>,
      calls = []\<rparr>"

definition pq_params :: crypto_adapter_params where
  "pq_params = \<lparr>params_use_pq_crypto = True, params_use_hybrid = True,
                 params_key_storage_path = None\<rparr>"

definition ready_adapter :: adapter_state where
  "ready_adapter = \<lparr>is_initialized = True, use_pq_crypto = True, use_hybrid = True,
                     key_storage_path = None\<rparr>"

text \<open>
A symmetric key with its two heap blocks, and a key that expired at time 1001.
\<close>

definition sample_key_id :: "byte list" where
  "sample_key_id = [1, 2, 3, 4, 5, 6, 7, 8, 9, 10, 11, 12, 13, 14, 15, 16]"

definition sample_heap :: byte_heap where
  "sample_heap = \<lparr>mem = [1 \<mapsto> sample_key_id, 2 \<mapsto> replicate 32 0x5A], released = []\<rparr>"

definition sample_symmetric_key :: crypto_key where
  "sample_symmetric_key =
     \<lparr>key_id = Some 1, key_id_size = 16, creation_time = 1000, expiration_time = 0,
      key_data = Symmetric (Some 2) 32\<rparr>"

definition expired_key :: crypto_key where
  "expired_key = \<lparr>key_id = Some 1, key_id_size = 16, creation_time = 1000,
                   expiration_time = 1001, key_data = Symmetric None 0\<rparr>"

text \<open>
\<open>keeps_hashes h h'\<close>: no node that has a digest buffer in \<open>h\<close> has lost it in \<open>h'\<close>.
\<close>

definition keeps_hashes :: "node_heap \<Rightarrow> node_heap \<Rightarrow> bool" where
  "keeps_hashes h h' \<longleftrightarrow> (\<forall>q. hash (h q) \<noteq> None \<longrightarrow> hash (h' q) \<noteq> None)"

text \<open>The nodes that have no digest buffer.\<close>

definition hashless :: "node_heap \<Rightarrow> addr set" where
  "hashless h = {q. hash (h q) = None}"

section \<open>Properties of the KEM\<close>

lemma fill_from_prefix:
  "k \<le> length a \<Longrightarrow> fill_from f 0 k a = map f [0..<k] @ drop k a"
proof (induction k)
  case 0
  then show ?case by (simp add: fill_from_def)
next
  case (Suc k)
  then have "fill_from f 0 (Suc k) a = (map f [0..<k] @ drop k a)[k := f k]"
    by (simp add: fill_from_def)
  also have "\<dots> = map f [0..<k] @ (drop k a)[0 := f k]"
    by (simp add: list_update_append)
  also have "(drop k a)[0 := f k] = f k # drop (Suc k) a"
    using Suc.prems by (cases "drop k a") (auto simp: drop_Suc drop_tl)
  finally show ?case by simp
qed

lemma fill_from_all: "length a = n \<Longrightarrow> fill_from f 0 n a = map f [0..<n]"
  by (simp add: fill_from_prefix)

lemma kyber_recover_ephemeral:
  assumes "length e = 32"
  shows "fill_from
           (\<lambda>i. (map (\<lambda>i. e ! (i mod 32) XOR pk ! (i mod KYBER_PUBLIC_KEY_BYTES))
                     [0..<KYBER_CIPHERTEXT_BYTES - 32] @ tl_ct) ! i
                 XOR pk ! (i mod KYBER_PUBLIC_KEY_BYTES))
           0 32 (map (\<lambda>i. of_nat (i + 1)) [0..<32]) = e"
proof -
  have "fill_from
           (\<lambda>i. (map (\<lambda>i. e ! (i mod 32) XOR pk ! (i mod KYBER_PUBLIC_KEY_BYTES))
                     [0..<KYBER_CIPHERTEXT_BYTES - 32] @ tl_ct) ! i
                 XOR pk ! (i mod KYBER_PUBLIC_KEY_BYTES))
           0 32 (map (\<lambda>i. of_nat (i + 1)) [0..<32])
        = map (\<lambda>i. (map (\<lambda>i. e ! (i mod 32) XOR pk ! (i mod KYBER_PUBLIC_KEY_BYTES))
                     [0..<KYBER_CIPHERTEXT_BYTES - 32] @ tl_ct) ! i
                 XOR pk ! (i mod KYBER_PUBLIC_KEY_BYTES)) [0..<32]"
    by (rule fill_from_all) simp
  also have "\<dots> = map (\<lambda>i. e ! i) [0..<32]"
    by (rule map_cong)
       (auto simp: nth_append KYBER_CIPHERTEXT_BYTES_def xor.assoc simp del: upt_rec_numeral)
  also have "\<dots> = e"
    using assms map_nth [of e] by simp
  finally show ?thesis .
qed

text \<open>
  C2. For a key pair produced by \<^verbatim>\<open>kyber_keygen\<close>: when \<^verbatim>\<open>kyber_encapsulate\<close> under the
  public key returns a ciphertext and a shared secret (its \<^verbatim>\<open>RAND_bytes\<close> call having
  filled the 32-byte buffer), \<^verbatim>\<open>kyber_decapsulate\<close> of that ciphertext under the secret
  key, in the same initialised module, returns exactly the same shared secret.
\<close>

theorem kyber_roundtrip:
  assumes "kyber_keygen H ready keypair evp_ok seed = Inr kp"
    and "length r = 32"
    and "kyber_encapsulate H ready True True (Some (kyber_public_key kp)) (Some r)
           = Inr (ct, ss1)"
  shows "kyber_decapsulate H ready True (Some ct) (Some (kyber_secret_key kp)) True
           = Inr ss1"
proof -
  from assms(1) have init: "ready"
    by (auto simp: kyber_keygen_def split: if_splits)
  from assms(1) have pk: "kyber_public_key kp = kyber_derive_public H (kyber_secret_key kp)"
    by (auto simp: kyber_keygen_def Let_def split: if_splits option.splits
             simp del: upt_rec_numeral)
  define e where "e = fill_from (\<lambda>i. of_nat (i + 1) :: byte) 0 32 r"
  have le: "length e = 32"
    using assms(2) by (simp add: e_def fill_from_all del: upt_rec_numeral)
  define pkv where "pkv = kyber_derive_public H (kyber_secret_key kp)"
  define ct0 where
    "ct0 = map (\<lambda>i. e ! (i mod 32) XOR pkv ! (i mod KYBER_PUBLIC_KEY_BYTES))
               [0..<KYBER_CIPHERTEXT_BYTES - 32]"
  from assms(3) have ct: "ct = ct0 @ H (take KYBER_PUBLIC_KEY_BYTES pkv @ take 32 e)"
    and ss: "ss1 = H (take KYBER_CIPHERTEXT_BYTES ct @ take 32 e)"
    by (auto simp: kyber_encapsulate_def Let_def init pk e_def ct0_def pkv_def
             simp del: upt_rec_numeral)
  have rec: "fill_from (\<lambda>i. ct ! i XOR pkv ! (i mod KYBER_PUBLIC_KEY_BYTES)) 0 32
               (map (\<lambda>i. of_nat (i + 1)) [0..<32]) = e"
    unfolding ct ct0_def by (rule kyber_recover_ephemeral [OF le])
  show ?thesis
    using rec
    by (simp add: kyber_decapsulate_def Let_def init ss flip: pkv_def
             del: upt_rec_numeral)
qed

theorem kyber_roundtrip_witness:
  "\<exists>kp ct ss.
     kyber_keygen toy_digest True True True (Some (replicate 32 7)) = Inr kp \<and>
     length (replicate 32 (0::byte)) = 32 \<and>
     kyber_encapsulate toy_digest True True True
        (Some (kyber_public_key kp)) (Some (replicate 32 0)) = Inr (ct, ss) \<and>
     kyber_decapsulate toy_digest True True (Some ct)
        (Some (kyber_secret_key kp)) True = Inr ss"
proof -
  obtain kp where k: "kyber_keygen toy_digest True True True (Some (replicate 32 7)) = Inr kp"
    by (simp add: kyber_keygen_def Let_def del: upt_rec_numeral)
  obtain ct ss where e: "kyber_encapsulate toy_digest True True True
        (Some (kyber_public_key kp)) (Some (replicate 32 0)) = Inr (ct, ss)"
    by (simp add: kyber_encapsulate_def Let_def del: upt_rec_numeral)
  have l: "length (replicate 32 (0::byte)) = 32" by simp
  from kyber_roundtrip [OF k l e] k e l show ?thesis by blast
qed

text \<open>
  C10. \<^verbatim>\<open>kyber_encapsulate\<close> does not depend on the bytes that \<^verbatim>\<open>RAND_bytes\<close> drew: the loop
  that follows the draw overwrites the 32-byte buffer with the bytes 1, 2, ..., 32, so two
  successful calls with the same public key return the same ciphertext and the same
  shared secret.
\<close>

theorem kyber_encapsulate_deterministic:
  assumes "length r1 = 32" and "length r2 = 32"
    and "kyber_encapsulate H ready ciphertext shared_secret public_key (Some r1)
           = Inr (ct1, ss1)"
    and "kyber_encapsulate H ready ciphertext shared_secret public_key (Some r2)
           = Inr (ct2, ss2)"
  shows "ct1 = ct2 \<and> ss1 = ss2 \<and>
         fill_from (\<lambda>i. of_nat (i + 1)) 0 32 r1 = map (\<lambda>i. of_nat (i + 1)) [0..<32]"
  using assms
  by (auto simp: kyber_encapsulate_def Let_def fill_from_all split: if_splits
           simp del: upt_rec_numeral)

theorem kyber_encapsulate_deterministic_witness:
  "\<exists>ct ss. length (replicate 32 (0::byte)) = 32 \<and> length (replicate 32 (255::byte)) = 32 \<and>
     kyber_encapsulate toy_digest True True True
        (Some (replicate 1184 9)) (Some (replicate 32 0)) = Inr (ct, ss) \<and>
     kyber_encapsulate toy_digest True True True
        (Some (replicate 1184 9)) (Some (replicate 32 255)) = Inr (ct, ss)"
proof -
  obtain ct ss where a: "kyber_encapsulate toy_digest True True True
        (Some (replicate 1184 9)) (Some (replicate 32 0)) = Inr (ct, ss)"
    by (simp add: kyber_encapsulate_def Let_def del: upt_rec_numeral)
  obtain ct' ss' where b: "kyber_encapsulate toy_digest True True True
        (Some (replicate 1184 9)) (Some (replicate 32 255)) = Inr (ct', ss')"
    by (simp add: kyber_encapsulate_def Let_def del: upt_rec_numeral)
  have l: "length (replicate 32 (0::byte)) = 32" "length (replicate 32 (255::byte)) = 32"
    by simp_all
  from kyber_encapsulate_deterministic [OF l a b] a b l show ?thesis by blast
qed

section \<open>Properties of the signature scheme\<close>

lemma falcon_test_message_tampered:
  "falcon_test_message[53 := falcon_test_message ! 53 XOR 1]
     = bytes_of ''This is a test message that will be signed with Falcoo''"
  by (simp add: falcon_test_message_def bytes_of_def)

lemma falcon_verify_test_prefix:
  assumes "take 51 msg = take 51 falcon_test_message" and "message_len > 50"
  shows "falcon_verify H hmac True (Some sig) signature_len (Some msg) message_len (Some pk)
           evp_ok = 1"
  using assms by (simp add: falcon_verify_def falcon_test_message_def)

text \<open>
  C1. The claim asks that a message differing in one bit from the signed one is never
  accepted. The code accepts the literal test sentence with bit 0 of its last byte
  flipped (54 bytes, the first 51 unchanged), under every signature, signature length
  and public key, hence also under the signature that \<^verbatim>\<open>falcon_sign\<close> made for the
  unmodified sentence with a key of \<^verbatim>\<open>falcon_keygen\<close>: the comparison with the first 51
  bytes of the test sentence returns 1 before the signature is read.
\<close>

theorem falcon_verify_accepts_tampered:
  "falcon_verify H hmac True (Some sig) signature_len
      (Some (falcon_test_message[53 := falcon_test_message ! 53 XOR 1])) 54 (Some pk) evp_ok = 1
   \<and> falcon_test_message[53 := falcon_test_message ! 53 XOR 1] \<noteq> falcon_test_message
   \<and> length falcon_test_message = 54"
  by (simp add: falcon_verify_def falcon_test_message_def bytes_of_def)

theorem falcon_verify_accepts_tampered_witness:
  "\<exists>kp sig n.
     falcon_keygen toy_digest True True True (Some (replicate 1281 3)) = Inr kp \<and>
     falcon_sign toy_digest toy_mac True True True (Some falcon_test_message) 54
        (Some (falcon_secret_key kp)) (Some (replicate 16 9)) True = Inr (sig, n) \<and>
     falcon_verify toy_digest toy_mac True (Some sig) n
        (Some (falcon_test_message[53 := falcon_test_message ! 53 XOR 1])) 54
        (Some (falcon_public_key kp)) True = 1"
proof -
  obtain kp where k: "falcon_keygen toy_digest True True True (Some (replicate 1281 3)) = Inr kp"
    by (simp add: falcon_keygen_def Let_def del: upt_rec_numeral)
  obtain sig n where s: "falcon_sign toy_digest toy_mac True True True (Some falcon_test_message)
        54 (Some (falcon_secret_key kp)) (Some (replicate 16 9)) True = Inr (sig, n)"
    by (simp add: falcon_sign_def Let_def)
  have v: "falcon_verify toy_digest toy_mac True (Some sig) n
        (Some (falcon_test_message[53 := falcon_test_message ! 53 XOR 1])) 54
        (Some (falcon_public_key kp)) True = 1"
    using falcon_verify_accepts_tampered [of toy_digest toy_mac sig n "falcon_public_key kp" True]
    by simp
  show ?thesis
    by (rule exI [of _ kp], rule exI [of _ sig], rule exI [of _ n]) (intro conjI k s v)
qed

text \<open>
  Away from the two literal comparisons, an honest signature is accepted exactly when the
  MAC under the first 32 secret-key bytes (the signer's key) agrees with the MAC under
  the digest of the first 32 public-key bytes (the verifier's key).
\<close>

lemma falcon_verify_sign_real_path:
  assumes "falcon_sign H hmac True True True (Some msg) message_len (Some sk) (Some nonce) True
             = Inr (sig, n)"
    and "length nonce = 16"
    and "\<not> (message_len > 50 \<and> take 51 msg = take 51 falcon_test_message)"
    and "\<not> (message_len > 50 \<and>
            take 35 msg = take 35 (bytes_of ''This is a test message that will be'') \<and>
            take 19 (drop 35 msg) = take 19 (bytes_of '' aigned with Falcon''))"
  shows "falcon_verify H hmac True (Some sig) n (Some msg) message_len (Some pk) True
           = (if take 32 (hmac (take 32 sk) (take 32 (H (take message_len msg)) @ nonce))
                 = take 32 (hmac (take 32 (H (take 32 pk)))
                                 (take 32 (H (take message_len msg)) @ nonce))
              then 1 else 0)"
proof -
  from assms(1) have sig: "sig = [0x30] @ nonce @
      take 32 (hmac (take 32 sk) (take 32 (H (take message_len msg)) @ nonce))"
    and n: "n = 49"
    using assms(2) by (auto simp: falcon_sign_def Let_def)
  have a: "take 16 (drop 1 sig) = nonce"
    using assms(2) by (simp add: sig)
  have b: "take 32 (drop 17 sig)
             = take 32 (hmac (take 32 sk) (take 32 (H (take message_len msg)) @ nonce))"
    using assms(2) by (simp add: sig)
  have c: "sig ! 0 = 0x30" by (simp add: sig)
  show ?thesis
    using assms(3,4) a b c
    by (auto simp add: falcon_verify_def Let_def n falcon_test_message_def)
qed

section \<open>Properties of the proof engine\<close>

text \<open>
  C6 as stated fails: the claim has a proof with an empty commitment or challenge
  rejected, and the function accepts one whose commitment and challenge have size 0,
  since it tests the three pointers and the response size only.
\<close>

theorem qzkp_verify_proof_counterexample:
  "commit_size empty_commitment_proof = 0 \<and> challenge_size empty_commitment_proof = 0 \<and>
   qzkp_verify_proof True (Some empty_commitment_proof) (bytes_of ''pub'') 3 (Some ()) True"
  by (simp add: qzkp_verify_proof_def empty_commitment_proof_def SHA256_DIGEST_LENGTH_def)

text \<open>
  C6, amended. \<^verbatim>\<open>qzkp_verify_proof\<close> accepts exactly when the engine is initialised, the
  parameters are given, the allocation of the scratch buffer succeeds, the three field
  pointers of the proof are non-null and the response size is 32. The sizes of commitment
  and challenge, the contents of the fields and the public input play no part.
\<close>

theorem qzkp_verify_proof_iff:
  "qzkp_verify_proof ready zkp public_input public_input_size params alloc_ok
     \<longleftrightarrow> ready \<and> params \<noteq> None \<and> alloc_ok \<and>
         (\<exists>p. zkp = Some p \<and> commitment p \<noteq> None \<and> challenge p \<noteq> None \<and>
              response p \<noteq> None \<and> response_size p = 32)"
  by (cases zkp) (auto simp: qzkp_verify_proof_def Let_def SHA256_DIGEST_LENGTH_def)

theorem qzkp_verify_proof_iff_witness:
  "qzkp_verify_proof True (Some empty_commitment_proof) (bytes_of ''pub'') 3 (Some ()) True
   \<and> response_size empty_commitment_proof = 32
   \<and> \<not> qzkp_verify_proof True (Some (empty_commitment_proof\<lparr>response_size := 31\<rparr>))
          (bytes_of ''pub'') 3 (Some ()) True"
  using qzkp_verify_proof_iff [of True "Some empty_commitment_proof" "bytes_of ''pub''" 3 "Some ()" True]
    qzkp_verify_proof_iff [of True "Some (empty_commitment_proof\<lparr>response_size := 31\<rparr>)"
       "bytes_of ''pub''" 3 "Some ()" True]
  by (simp add: empty_commitment_proof_def)

section \<open>Properties of the entanglement engine\<close>

text \<open>
  C5 as stated fails: the claim has \<^verbatim>\<open>le_add_dependency\<close> fail on a node whose digest is
  computed and on an edge that closes a cycle. Node 1 of \<open>frozen_heap\<close> has its digest,
  and the edge from node 1 to itself is a cycle; the call returns 0 and appends.
\<close>

theorem le_add_dependency_counterexample:
  "hash (frozen_heap 1) = Some (replicate 32 0) \<and>
   fst (le_add_dependency True (Some 1) (Some 1) True frozen_heap) = 0 \<and>
   deps (snd (le_add_dependency True (Some 1) (Some 1) True frozen_heap) 1) = [1]"
  by (simp add: le_add_dependency_def frozen_heap_def frozen_node_def)

text \<open>
  C5, amended. \<^verbatim>\<open>le_add_dependency\<close> returns 0 exactly when the engine is initialised,
  both pointers are non-null and the reallocation succeeds; it then appends the
  dependency at the end of the node's list and changes nothing else. Otherwise it returns
  \<open>-1\<close> (not initialised or a null pointer) or \<open>-2\<close> (reallocation failed) and leaves the
  heap as it was. Neither the digest of the node nor the shape of the graph is consulted.
\<close>

theorem le_add_dependency_effect:
  fixes h :: node_heap
  assumes "le_add_dependency ready node dependency realloc_ok h = (result, h')"
  shows "(result = 0 \<longleftrightarrow>
            ready \<and> node \<noteq> None \<and> dependency \<noteq> None \<and> realloc_ok)
       \<and> (result \<noteq> 0 \<longrightarrow> h' = h \<and>
            result = (if ready \<and> node \<noteq> None \<and> dependency \<noteq> None then -2 else -1))
       \<and> (result = 0 \<longrightarrow>
            deps (h' (the node)) = deps (h (the node)) @ [the dependency] \<and>
            data (h' (the node)) = data (h (the node)) \<and>
            hash (h' (the node)) = hash (h (the node)) \<and>
            (\<forall>q. q \<noteq> the node \<longrightarrow> h' q = h q))"
  using assms
  by (auto simp: le_add_dependency_def Let_def split: if_splits)

theorem le_add_dependency_effect_witness:
  "le_add_dependency True (Some 1) (Some 1) True frozen_heap
     = (0, frozen_heap(1 := frozen_node\<lparr>deps := [1]\<rparr>))
   \<and> deps ((frozen_heap(1 := frozen_node\<lparr>deps := [1]\<rparr>)) (the (Some 1)))
       = deps (frozen_heap (the (Some 1))) @ [the (Some 1)]
   \<and> le_add_dependency True (Some 1) (Some 2) False frozen_heap = (-2, frozen_heap)
   \<and> le_add_dependency False (Some 1) (Some 2) True frozen_heap = (-1, frozen_heap)"
proof -
  have a: "le_add_dependency True (Some 1) (Some 1) True frozen_heap
             = (0, frozen_heap(1 := frozen_node\<lparr>deps := [1]\<rparr>))"
    by (simp add: le_add_dependency_def frozen_heap_def frozen_node_def)
  have b: "le_add_dependency True (Some 1) (Some 2) False frozen_heap
             = (fst (le_add_dependency True (Some 1) (Some 2) False frozen_heap),
                snd (le_add_dependency True (Some 1) (Some 2) False frozen_heap))"
    by simp
  have c: "le_add_dependency False (Some 1) (Some 2) True frozen_heap
             = (fst (le_add_dependency False (Some 1) (Some 2) True frozen_heap),
                snd (le_add_dependency False (Some 1) (Some 2) True frozen_heap))"
    by simp
  have nb: "fst (le_add_dependency True (Some 1) (Some 2) False frozen_heap) \<noteq> 0"
    by (simp add: le_add_dependency_def)
  have nc: "fst (le_add_dependency False (Some 1) (Some 2) True frozen_heap) \<noteq> 0"
    by (simp add: le_add_dependency_def)
  from le_add_dependency_effect [OF a] le_add_dependency_effect [OF b]
    le_add_dependency_effect [OF c] a nb nc
  show ?thesis
    by (simp add: prod_eq_iff)
qed

lemma calc_missing_hashes_cached:
  "\<forall>d \<in> set ds. hash (h d) \<noteq> None \<Longrightarrow> calc_missing_hashes calc ds h = Some (0, h)"
  by (induction ds) auto

lemma keeps_hashes_refl: "keeps_hashes h h"
  by (simp add: keeps_hashes_def)

lemma keeps_hashes_trans: "keeps_hashes h h' \<Longrightarrow> keeps_hashes h' h'' \<Longrightarrow> keeps_hashes h h''"
  by (simp add: keeps_hashes_def)

lemma calc_missing_hashes_keeps:
  assumes "\<And>d h r h'. calc d h = Some (r, h') \<Longrightarrow>
             keeps_hashes h h' \<and> (r = 0 \<longrightarrow> hash (h' d) \<noteq> None)"
    and "calc_missing_hashes calc ds h = Some (r, h')"
  shows "keeps_hashes h h' \<and> (r = 0 \<longrightarrow> (\<forall>d \<in> set ds. hash (h' d) \<noteq> None))"
  using assms(2)
proof (induction ds arbitrary: h)
  case Nil
  then show ?case by (simp add: keeps_hashes_refl)
next
  case (Cons d ds)
  show ?case
  proof (cases "hash (h d) = None")
    case False
    with Cons.prems have "calc_missing_hashes calc ds h = Some (r, h')" by simp
    from Cons.IH [OF this] False show ?thesis
      by (auto simp: keeps_hashes_def)
  next
    case True
    with Cons.prems obtain r1 h1 where c: "calc d h = Some (r1, h1)"
      by (auto split: option.splits)
    from assms(1) [OF c] have k1: "keeps_hashes h h1" and d1: "r1 = 0 \<longrightarrow> hash (h1 d) \<noteq> None"
      by auto
    show ?thesis
    proof (cases "r1 = 0")
      case False
      with Cons.prems True c have "r = r1" "h' = h1" by auto
      with k1 False show ?thesis by simp
    next
      case r0: True
      with Cons.prems True c have "calc_missing_hashes calc ds h1 = Some (r, h')" by simp
      from Cons.IH [OF this] have k2: "keeps_hashes h1 h'"
        and rest: "r = 0 \<longrightarrow> (\<forall>d \<in> set ds. hash (h' d) \<noteq> None)" by auto
      from d1 r0 k2 have "hash (h' d) \<noteq> None" by (simp add: keeps_hashes_def)
      with rest keeps_hashes_trans [OF k1 k2] show ?thesis by simp
    qed
  qed
qed

lemma le_calculate_node_hash_keeps:
  "le_calculate_node_hash H junk ready True fuel (Some p) h = Some (r, h') \<Longrightarrow>
     keeps_hashes h h' \<and> (r = 0 \<longrightarrow> hash (h' p) \<noteq> None)"
proof (induction fuel arbitrary: p h r h')
  case 0
  then show ?case by simp
next
  case (Suc fuel)
  let ?calc = "\<lambda>d. le_calculate_node_hash H junk ready True fuel (Some d)"
  let ?h1 = "h(p := (h p)\<lparr>hash := Some junk, hash_size := SHA256_DIGEST_LENGTH\<rparr>)"
  have k1: "keeps_hashes h ?h1" by (simp add: keeps_hashes_def)
  show ?case
  proof (cases "\<not> ready \<or> data (h p) = None")
    case True
    with Suc.prems show ?thesis
      by (auto simp: Let_def keeps_hashes_refl split: if_splits)
  next
    case ok: False
    show ?thesis
    proof (cases "deps (h p) = []")
      case True
      with ok Suc.prems show ?thesis
        by (auto simp: Let_def keeps_hashes_def split: if_splits)
    next
      case False
      with ok Suc.prems obtain r2 h2 where
        c: "calc_missing_hashes ?calc (deps (h p)) ?h1 = Some (r2, h2)"
        by (auto simp: Let_def split: option.splits)
      have "keeps_hashes ?h1 h2"
        using calc_missing_hashes_keeps [of ?calc, OF _ c] Suc.IH by blast
      with k1 have k2: "keeps_hashes h h2" by (rule keeps_hashes_trans)
      have hp: "hash (h2 p) \<noteq> None"
        using \<open>keeps_hashes ?h1 h2\<close> by (simp add: keeps_hashes_def)
      show ?thesis
      proof (cases "r2 = 0")
        case True
        with ok False c Suc.prems have "r = 0"
          and "h' = h2(p := (h2 p)\<lparr>hash :=
                    Some (H (take (data_size (h2 p)) (the (data (h2 p)))
                             @ hash_bytes h2 (deps (h2 p))))\<rparr>)"
          by (auto simp: Let_def)
        with k2 show ?thesis by (simp add: keeps_hashes_def)
      next
        case False
        with ok \<open>deps (h p) \<noteq> []\<close> c Suc.prems have "r = r2" "h' = h2"
          by (auto simp: Let_def)
        with k2 False show ?thesis by simp
      qed
    qed
  qed
qed

lemma le_calculate_root_hash_success:
  assumes "le_calculate_root_hash H junk ready alloc_ok fuel (Some g) h
             = Some (0, Some g', h')"
  shows "ready \<and> alloc_ok \<and> nodes g \<noteq> None \<and> node_count g \<noteq> 0
       \<and> nodes g' = nodes g \<and> node_count g' = node_count g
       \<and> root_hash g' = Some (H (hash_bytes h' (take (node_count g) (the (nodes g)))))
       \<and> root_hash_size g' = SHA256_DIGEST_LENGTH
       \<and> (\<forall>d \<in> set (take (node_count g) (the (nodes g))). hash (h' d) \<noteq> None)"
proof -
  let ?ns = "take (node_count g) (the (nodes g))"
  let ?calc = "\<lambda>d. le_calculate_node_hash H junk ready alloc_ok fuel (Some d)"
  from assms have pre: "ready" "nodes g \<noteq> None" "node_count g \<noteq> 0"
    by (auto simp: le_calculate_root_hash_def split: if_splits)
  with assms obtain r1 h1 where c: "calc_missing_hashes ?calc ?ns h = Some (r1, h1)"
    by (auto simp: le_calculate_root_hash_def Let_def split: option.splits)
  with assms pre have r1: "r1 = 0" and al: "alloc_ok" and h1: "h1 = h'"
    by (auto simp: le_calculate_root_hash_def Let_def split: if_splits)
  from assms pre c r1 al have g':
    "nodes g' = nodes g" "node_count g' = node_count g"
    "root_hash g' = Some (H (hash_bytes h' ?ns))" "root_hash_size g' = SHA256_DIGEST_LENGTH"
    by (auto simp: le_calculate_root_hash_def Let_def split: if_splits)
  have ck: "keeps_hashes x x' \<and> (rx = 0 \<longrightarrow> hash (x' d) \<noteq> None)"
    if "?calc d x = Some (rx, x')" for d x rx x'
  proof -
    from that al
    have "le_calculate_node_hash H junk ready True fuel (Some d) x = Some (rx, x')"
      by simp
    then show ?thesis by (rule le_calculate_node_hash_keeps)
  qed
  have "\<forall>d \<in> set ?ns. hash (h' d) \<noteq> None"
    using calc_missing_hashes_keeps [of ?calc, OF ck c] r1 h1 by simp
  with pre al g' show ?thesis by simp
qed

lemma hash_bytes_cong:
  "\<forall>d \<in> set ds. hash (h d) = hash (h' d) \<and> hash_size (h d) = hash_size (h' d) \<Longrightarrow>
     hash_bytes h ds = hash_bytes h' ds"
  by (simp add: hash_bytes_def cong: map_cong)

text \<open>
  C4. The claim has \<^verbatim>\<open>le_verify_graph\<close> recompute the node digests and return false once a
  payload has changed. The code does the opposite: \<^verbatim>\<open>le_calculate_root_hash\<close> on the
  temporary graph calculates a node digest only where \<^verbatim>\<open>hash\<close> is \<^verbatim>\<open>NULL\<close>, and after a
  successful root computation no node of the graph is in that state. So for every graph
  whose root was computed, and every later change of the payload (and its size) of any
  node \<open>p\<close>, \<^verbatim>\<open>le_verify_graph\<close> returns true, and leaves the nodes as they are. No fuel
  is consumed, so it returns with any amount of it.
\<close>

theorem le_verify_graph_accepts_mutated_payload:
  assumes "le_calculate_root_hash H junk ready alloc_ok fuel (Some g) h
             = Some (0, Some g', h')"
  shows "le_verify_graph H junk ready alloc_ok fuel' (Some g')
           (h'(p := (h' p)\<lparr>data := d', data_size := n'\<rparr>))
         = Some (True, h'(p := (h' p)\<lparr>data := d', data_size := n'\<rparr>))"
proof -
  let ?ns = "take (node_count g) (the (nodes g))"
  let ?hm = "h'(p := (h' p)\<lparr>data := d', data_size := n'\<rparr>)"
  let ?calc = "\<lambda>d. le_calculate_node_hash H junk ready alloc_ok fuel' (Some d)"
  note s = le_calculate_root_hash_success [OF assms]
  have cached: "\<forall>d \<in> set ?ns. hash (?hm d) \<noteq> None"
    using s by simp
  have loop: "calc_missing_hashes ?calc ?ns ?hm = Some (0, ?hm)"
    by (rule calc_missing_hashes_cached [OF cached])
  have same: "hash_bytes ?hm ?ns = hash_bytes h' ?ns"
    by (rule hash_bytes_cong) simp
  have "le_calculate_root_hash H junk ready alloc_ok fuel'
          (Some \<lparr>nodes = nodes g', node_count = node_count g',
                 root_hash = None, root_hash_size = 0\<rparr>) ?hm
        = Some (0, Some \<lparr>nodes = nodes g', node_count = node_count g',
                          root_hash = Some (H (hash_bytes h' ?ns)),
                          root_hash_size = SHA256_DIGEST_LENGTH\<rparr>, ?hm)"
    using s loop same by (simp add: le_calculate_root_hash_def Let_def)
  then show ?thesis
    using s by (simp add: le_verify_graph_def Let_def)
qed

lemma s1_node_count: "s1_graph = Some \<lparr>nodes = Some [1, 2, 3, 4], node_count = 4,
                 root_hash = None, root_hash_size = 0\<rparr>"
  by (simp add: s1_graph_def le_create_graph_def)

theorem le_verify_graph_accepts_mutated_payload_witness:
  "\<exists>g' h'.
     data (s1_heap 1) = Some (bytes_of ''head'') \<and>
     le_calculate_root_hash toy_digest [] True True 4 s1_graph s1_heap = Some (0, Some g', h') \<and>
     le_verify_graph toy_digest [] True True 4 (Some g')
        (h'(1 := (h' 1)\<lparr>data := Some (bytes_of ''Head''), data_size := 4\<rparr>))
       = Some (True, h'(1 := (h' 1)\<lparr>data := Some (bytes_of ''Head''), data_size := 4\<rparr>))"
proof -
  have d: "data (s1_heap 1) = Some (bytes_of ''head'')"
    by (simp add: s1_heap_def le_create_node_def le_add_dependency_def Let_def bytes_of_def)
  obtain g' h' where
    r: "le_calculate_root_hash toy_digest [] True True 4 (Some \<lparr>nodes = Some [1, 2, 3, 4],
          node_count = 4, root_hash = None, root_hash_size = 0\<rparr>) s1_heap
        = Some (0, Some g', h')"
    by (simp add: le_calculate_root_hash_def s1_heap_def le_create_node_def
          le_add_dependency_def Let_def eval_nat_numeral)
  have v: "le_verify_graph toy_digest [] True True 4 (Some g')
        (h'(1 := (h' 1)\<lparr>data := Some (bytes_of ''Head''), data_size := 4\<rparr>))
       = Some (True, h'(1 := (h' 1)\<lparr>data := Some (bytes_of ''Head''), data_size := 4\<rparr>))"
    by (rule le_verify_graph_accepts_mutated_payload [OF r])
  show ?thesis
    unfolding s1_node_count
    by (rule exI [of _ g'], rule exI [of _ h']) (intro conjI d r v)
qed

text \<open>
  The fuel is adequate. A call of \<^verbatim>\<open>le_calculate_node_hash\<close> gives its node a digest
  buffer before it descends, and descends only into nodes without one, so the nesting
  depth is bounded by the number of such nodes, also when the dependencies form a cycle:
  with that much fuel (allocations succeeding) the functions return.
\<close>

lemma calc_missing_hashes_returns:
  assumes calc: "\<And>d x. finite (hashless x) \<Longrightarrow> card (hashless x - {d}) < Suc k \<Longrightarrow>
             \<exists>r x'. calc d x = Some (r, x') \<and> hashless x' \<subseteq> hashless x"
    and "finite (hashless h)" and "card (hashless h) \<le> Suc k"
  shows "\<exists>r h'. calc_missing_hashes calc ds h = Some (r, h') \<and> hashless h' \<subseteq> hashless h"
  using assms(2,3)
proof (induction ds arbitrary: h)
  case Nil
  then show ?case by simp
next
  case (Cons d ds)
  show ?case
  proof (cases "hash (h d) = None")
    case False
    with Cons.IH [OF Cons.prems] show ?thesis by auto
  next
    case True
    then have "d \<in> hashless h" by (simp add: hashless_def)
    with Cons.prems have "card (hashless h - {d}) < Suc k"
      by (metis card_Diff1_less le_imp_less_Suc less_Suc_eq_le less_le_trans not_less)
    from calc [OF Cons.prems(1) this] obtain r1 h1 where
      c: "calc d h = Some (r1, h1)" and s1: "hashless h1 \<subseteq> hashless h" by blast
    from s1 Cons.prems have f1: "finite (hashless h1)" and c1: "card (hashless h1) \<le> Suc k"
      by (auto intro: finite_subset dest: card_mono [OF Cons.prems(1)])
    from Cons.IH [OF f1 c1] obtain r h' where
      "calc_missing_hashes calc ds h1 = Some (r, h')" "hashless h' \<subseteq> hashless h1" by blast
    with c s1 True show ?thesis by auto
  qed
qed

lemma le_calculate_node_hash_returns:
  assumes "finite (hashless h)" and "card (hashless h - {p}) < fuel"
  shows "\<exists>r h'. le_calculate_node_hash H junk ready True fuel (Some p) h = Some (r, h')
           \<and> hashless h' \<subseteq> hashless h"
  using assms
proof (induction fuel arbitrary: p h)
  case 0
  then show ?case by simp
next
  case (Suc k)
  let ?calc = "\<lambda>d. le_calculate_node_hash H junk ready True k (Some d)"
  let ?h1 = "h(p := (h p)\<lparr>hash := Some junk, hash_size := SHA256_DIGEST_LENGTH\<rparr>)"
  have h1: "hashless ?h1 = hashless h - {p}"
    by (auto simp: hashless_def)
  show ?case
  proof (cases "\<not> ready \<or> data (h p) = None")
    case True
    then show ?thesis by (auto simp: Let_def)
  next
    case ok: False
    show ?thesis
    proof (cases "deps (h p) = []")
      case True
      with ok show ?thesis by (auto simp: Let_def hashless_def)
    next
      case False
      show ?thesis
      proof (cases k)
        case 0
        with Suc.prems have e: "hashless ?h1 = {}" by (simp add: h1)
        then have "\<forall>d \<in> set (deps (h p)). hash (?h1 d) \<noteq> None"
          by (auto simp: hashless_def)
        then have "calc_missing_hashes ?calc (deps (h p)) ?h1 = Some (0, ?h1)"
          by (rule calc_missing_hashes_cached)
        with ok False Suc.prems(1) show ?thesis
          by (auto simp: Let_def hashless_def)
      next
        case (Suc j)
        have "\<exists>r x'. ?calc d x = Some (r, x') \<and> hashless x' \<subseteq> hashless x"
          if "finite (hashless x)" "card (hashless x - {d}) < Suc j" for d x
          using Suc.IH [of x d] that Suc by simp
        moreover have "finite (hashless ?h1)" "card (hashless ?h1) \<le> Suc j"
          using Suc.prems Suc by (simp_all add: h1)
        ultimately obtain r2 h2 where
          c: "calc_missing_hashes ?calc (deps (h p)) ?h1 = Some (r2, h2)"
          and s2: "hashless h2 \<subseteq> hashless ?h1"
          using calc_missing_hashes_returns [of j ?calc ?h1 "deps (h p)"] by blast
        from s2 have "hashless h2 \<subseteq> hashless h" by (auto simp: h1)
        moreover have "hashless (h2(p := (h2 p)\<lparr>hash := Some v\<rparr>)) \<subseteq> hashless h2" for v
          by (auto simp: hashless_def)
        ultimately show ?thesis
          using ok False c by (auto simp: Let_def)
      qed
    qed
  qed
qed

lemma le_verify_graph_returns:
  assumes "finite (hashless h)" and "card (hashless h) \<le> fuel"
  shows "\<exists>b h'. le_verify_graph H junk ready True fuel graph h = Some (b, h')"
proof -
  let ?calc = "\<lambda>d. le_calculate_node_hash H junk ready True fuel (Some d)"
  have loop: "\<exists>r h'. calc_missing_hashes ?calc ds h = Some (r, h')" for ds
  proof (cases fuel)
    case 0
    with assms have "hashless h = {}" by simp
    then have "\<forall>d \<in> set ds. hash (h d) \<noteq> None" by (auto simp: hashless_def)
    then show ?thesis by (simp add: calc_missing_hashes_cached)
  next
    case (Suc k)
    have "\<exists>r x'. ?calc d x = Some (r, x') \<and> hashless x' \<subseteq> hashless x"
      if "finite (hashless x)" "card (hashless x - {d}) < Suc k" for d x
      using le_calculate_node_hash_returns [of x d fuel H junk ready] that Suc by simp
    then show ?thesis
      using calc_missing_hashes_returns [of k ?calc h ds] assms Suc by blast
  qed
  have root: "\<exists>res. le_calculate_root_hash H junk ready True fuel g h = Some res" for g
  proof (cases "\<not> ready \<or> g = None \<or> nodes (the g) = None \<or> node_count (the g) = 0")
    case True
    then show ?thesis by (auto simp: le_calculate_root_hash_def)
  next
    case False
    from loop [of "take (node_count (the g)) (the (nodes (the g)))"] obtain r h' where
      "calc_missing_hashes ?calc (take (node_count (the g)) (the (nodes (the g)))) h
         = Some (r, h')" by blast
    with False show ?thesis by (auto simp: le_calculate_root_hash_def Let_def)
  qed
  show ?thesis
  proof (cases "\<not> ready \<or> graph = None \<or> nodes (the graph) = None
                 \<or> node_count (the graph) = 0 \<or> root_hash (the graph) = None")
    case True
    then show ?thesis by (auto simp: le_verify_graph_def)
  next
    case False
    from root obtain r tg h1 where
      "le_calculate_root_hash H junk ready True fuel
         (Some \<lparr>nodes = nodes (the graph), node_count = node_count (the graph),
                root_hash = None, root_hash_size = 0\<rparr>) h = Some (r, tg, h1)"
      by (metis prod_cases3)
    with False show ?thesis by (auto simp: le_verify_graph_def Let_def)
  qed
qed

section \<open>Properties of the adapter\<close>

text \<open>
  C7 as stated fails: the claim has \<^verbatim>\<open>crypto_adapter_init\<close> initialise the entanglement
  engine between the proof engine and the KEM. From the uninitialised process, with
  post-quantum algorithms requested and every \<^verbatim>\<open>RAND_poll\<close> succeeding, the call returns 0
  after the three calls listed, and the entanglement engine is still uninitialised.
\<close>

theorem crypto_adapter_init_counterexample:
  "fst (crypto_adapter_init (Some pq_params) True True True fresh_process) = 0 \<and>
   calls (snd (crypto_adapter_init (Some pq_params) True True True fresh_process))
     = [QZKP_INIT, KYBER_INIT, FALCON_INIT] \<and>
   le_initialized (snd (crypto_adapter_init (Some pq_params) True True True fresh_process))
     = False"
  by (simp add: crypto_adapter_init_def fresh_process_def pq_params_def call_qzkp_init_def
        call_kyber_init_def call_falcon_init_def qzkp_init_def kyber_init_def falcon_init_def)

lemmas adapter_init_defs =
  crypto_adapter_init_def call_qzkp_init_def call_kyber_init_def call_falcon_init_def
  call_qzkp_cleanup_def call_kyber_cleanup_def call_falcon_cleanup_def
  qzkp_init_def kyber_init_def falcon_init_def
  qzkp_cleanup_def kyber_cleanup_def falcon_cleanup_def

lemma crypto_adapter_init_idempotent:
  "is_initialized (adapter s) \<Longrightarrow> crypto_adapter_init params poll1 poll2 poll3 s = (0, s)"
  by (simp add: crypto_adapter_init_def)

lemma crypto_adapter_init_no_params:
  "\<not> is_initialized (adapter s) \<Longrightarrow> crypto_adapter_init None poll1 poll2 poll3 s = (-1, s)"
  by (simp add: crypto_adapter_init_def)

lemma crypto_adapter_init_qzkp_fails:
  assumes "\<not> is_initialized (adapter s)" and "\<not> (qzkp_initialized s \<or> poll1)"
  shows "crypto_adapter_init (Some p) poll1 poll2 poll3 s
           = (-1, s\<lparr>calls := calls s @ [QZKP_INIT]\<rparr>)"
  using assms by (simp add: adapter_init_defs)

lemma crypto_adapter_init_no_pq:
  assumes "\<not> is_initialized (adapter s)" and "qzkp_initialized s \<or> poll1"
    and "\<not> params_use_pq_crypto p"
  shows "crypto_adapter_init (Some p) poll1 poll2 poll3 s
           = (0, s\<lparr>qzkp_initialized := True,
                   adapter := \<lparr>is_initialized = True, use_pq_crypto = False,
                               use_hybrid = params_use_hybrid p,
                               key_storage_path = params_key_storage_path p\<rparr>,
                   calls := calls s @ [QZKP_INIT]\<rparr>)"
  using assms by (auto simp add: adapter_init_defs)

lemma crypto_adapter_init_kyber_fails:
  assumes "\<not> is_initialized (adapter s)" and "qzkp_initialized s \<or> poll1"
    and "params_use_pq_crypto p" and "\<not> (kyber_initialized s \<or> poll2)"
  shows "crypto_adapter_init (Some p) poll1 poll2 poll3 s
           = (-1, s\<lparr>qzkp_initialized := False,
                    calls := calls s @ [QZKP_INIT, KYBER_INIT, QZKP_CLEANUP]\<rparr>)"
  using assms by (auto simp add: adapter_init_defs)

lemma crypto_adapter_init_falcon_fails:
  assumes "\<not> is_initialized (adapter s)" and "qzkp_initialized s \<or> poll1"
    and "params_use_pq_crypto p" and "kyber_initialized s \<or> poll2"
    and "\<not> (falcon_initialized s \<or> poll3)"
  shows "crypto_adapter_init (Some p) poll1 poll2 poll3 s
           = (-1, s\<lparr>qzkp_initialized := False, kyber_initialized := False,
                    calls := calls s @ [QZKP_INIT, KYBER_INIT, FALCON_INIT,
                                        KYBER_CLEANUP, QZKP_CLEANUP]\<rparr>)"
  using assms by (auto simp add: adapter_init_defs)

lemma crypto_adapter_init_pq:
  assumes "\<not> is_initialized (adapter s)" and "qzkp_initialized s \<or> poll1"
    and "params_use_pq_crypto p" and "kyber_initialized s \<or> poll2"
    and "falcon_initialized s \<or> poll3"
  shows "crypto_adapter_init (Some p) poll1 poll2 poll3 s
           = (0, s\<lparr>qzkp_initialized := True, kyber_initialized := True,
                   falcon_initialized := True,
                   adapter := \<lparr>is_initialized = True, use_pq_crypto = True,
                               use_hybrid = params_use_hybrid p,
                               key_storage_path = params_key_storage_path p\<rparr>,
                   calls := calls s @ [QZKP_INIT, KYBER_INIT, FALCON_INIT]\<rparr>)"
  using assms by (auto simp add: adapter_init_defs)

text \<open>
  C7, amended. \<^verbatim>\<open>crypto_adapter_init\<close> never touches the entanglement engine. On an
  initialised adapter it returns 0 and changes nothing. Otherwise, without parameters it
  returns \<open>-1\<close>; with parameters it calls \<^verbatim>\<open>qzkp_init\<close> and then, only when
  \<^verbatim>\<open>use_pq_crypto\<close> is set, \<^verbatim>\<open>kyber_init\<close> and \<^verbatim>\<open>falcon_init\<close>, in that order. When all
  succeed it stores the parameters and marks the adapter initialised. When one fails (its
  module was not initialised and \<^verbatim>\<open>RAND_poll\<close> failed) it returns that module's \<open>-1\<close>,
  cleans up the modules initialised before it in reverse order, and leaves the adapter
  state as it was.
\<close>

theorem crypto_adapter_init_behaviour:
  assumes "crypto_adapter_init params poll1 poll2 poll3 s = (result, s')"
  shows "le_initialized s' = le_initialized s
       \<and> (is_initialized (adapter s) \<longrightarrow> result = 0 \<and> s' = s)
       \<and> (\<not> is_initialized (adapter s) \<and> params = None \<longrightarrow> result = -1 \<and> s' = s)
       \<and> (\<not> is_initialized (adapter s) \<and> params = Some p \<longrightarrow>
            (result = 0 \<longleftrightarrow>
               (qzkp_initialized s \<or> poll1) \<and>
               (params_use_pq_crypto p \<longrightarrow>
                  (kyber_initialized s \<or> poll2) \<and> (falcon_initialized s \<or> poll3)))
          \<and> (result = 0 \<longrightarrow>
               adapter s' = \<lparr>is_initialized = True,
                             use_pq_crypto = params_use_pq_crypto p,
                             use_hybrid = params_use_hybrid p,
                             key_storage_path = params_key_storage_path p\<rparr>
             \<and> qzkp_initialized s'
             \<and> (if params_use_pq_crypto p
                 then kyber_initialized s' \<and> falcon_initialized s' \<and>
                      calls s' = calls s @ [QZKP_INIT, KYBER_INIT, FALCON_INIT]
                 else kyber_initialized s' = kyber_initialized s \<and>
                      falcon_initialized s' = falcon_initialized s \<and>
                      calls s' = calls s @ [QZKP_INIT]))
          \<and> (result \<noteq> 0 \<longrightarrow>
               result = -1 \<and> adapter s' = adapter s \<and> \<not> qzkp_initialized s'
             \<and> (if \<not> (qzkp_initialized s \<or> poll1)
                 then kyber_initialized s' = kyber_initialized s \<and>
                      falcon_initialized s' = falcon_initialized s \<and>
                      calls s' = calls s @ [QZKP_INIT]
                 else if \<not> (kyber_initialized s \<or> poll2)
                 then \<not> kyber_initialized s' \<and>
                      falcon_initialized s' = falcon_initialized s \<and>
                      calls s' = calls s @ [QZKP_INIT, KYBER_INIT, QZKP_CLEANUP]
                 else \<not> kyber_initialized s' \<and> \<not> falcon_initialized s' \<and>
                      calls s' = calls s @ [QZKP_INIT, KYBER_INIT, FALCON_INIT,
                                            KYBER_CLEANUP, QZKP_CLEANUP])))"
proof (cases "is_initialized (adapter s)")
  case True
  with assms crypto_adapter_init_idempotent [OF True, of params poll1 poll2 poll3]
  show ?thesis by simp
next
  case ninit: False
  show ?thesis
  proof (cases params)
    case None
    with assms ninit crypto_adapter_init_no_params [OF ninit, of poll1 poll2 poll3]
    show ?thesis by simp
  next
    case (Some p0)
    consider (q) "\<not> (qzkp_initialized s \<or> poll1)"
      | (nopq) "qzkp_initialized s \<or> poll1" "\<not> params_use_pq_crypto p0"
      | (k) "qzkp_initialized s \<or> poll1" "params_use_pq_crypto p0"
            "\<not> (kyber_initialized s \<or> poll2)"
      | (f) "qzkp_initialized s \<or> poll1" "params_use_pq_crypto p0"
            "kyber_initialized s \<or> poll2" "\<not> (falcon_initialized s \<or> poll3)"
      | (ok) "qzkp_initialized s \<or> poll1" "params_use_pq_crypto p0"
            "kyber_initialized s \<or> poll2" "falcon_initialized s \<or> poll3"
      by blast
    then show ?thesis
    proof cases
      case q
      from assms Some crypto_adapter_init_qzkp_fails [OF ninit q, of p0 poll2 poll3]
      have "result = -1" "s' = s\<lparr>calls := calls s @ [QZKP_INIT]\<rparr>" by simp_all
      with ninit Some q show ?thesis by auto
    next
      case nopq
      from assms Some crypto_adapter_init_no_pq [OF ninit nopq, of poll2 poll3]
      have "result = 0" "s' = s\<lparr>qzkp_initialized := True,
                   adapter := \<lparr>is_initialized = True, use_pq_crypto = False,
                               use_hybrid = params_use_hybrid p0,
                               key_storage_path = params_key_storage_path p0\<rparr>,
                   calls := calls s @ [QZKP_INIT]\<rparr>" by simp_all
      with ninit Some nopq show ?thesis by auto
    next
      case k
      from assms Some crypto_adapter_init_kyber_fails [OF ninit k, of poll3]
      have "result = -1" "s' = s\<lparr>qzkp_initialized := False,
                    calls := calls s @ [QZKP_INIT, KYBER_INIT, QZKP_CLEANUP]\<rparr>" by simp_all
      with ninit Some k show ?thesis by auto
    next
      case f
      from assms Some crypto_adapter_init_falcon_fails [OF ninit f]
      have "result = -1" "s' = s\<lparr>qzkp_initialized := False, kyber_initialized := False,
                    calls := calls s @ [QZKP_INIT, KYBER_INIT, FALCON_INIT,
                                        KYBER_CLEANUP, QZKP_CLEANUP]\<rparr>" by simp_all
      with ninit Some f show ?thesis by auto
    next
      case ok
      from assms Some crypto_adapter_init_pq [OF ninit ok]
      have "result = 0" "s' = s\<lparr>qzkp_initialized := True, kyber_initialized := True,
                   falcon_initialized := True,
                   adapter := \<lparr>is_initialized = True, use_pq_crypto = True,
                               use_hybrid = params_use_hybrid p0,
                               key_storage_path = params_key_storage_path p0\<rparr>,
                   calls := calls s @ [QZKP_INIT, KYBER_INIT, FALCON_INIT]\<rparr>" by simp_all
      with ninit Some ok show ?thesis by auto
    qed
  qed
qed

theorem crypto_adapter_init_behaviour_witness:
  "fst (crypto_adapter_init (Some pq_params) True True True fresh_process) = 0 \<and>
   is_initialized (adapter (snd (crypto_adapter_init (Some pq_params) True True True
                                   fresh_process))) \<and>
   calls (snd (crypto_adapter_init (Some pq_params) True True True fresh_process))
     = [QZKP_INIT, KYBER_INIT, FALCON_INIT] \<and>
   fst (crypto_adapter_init (Some pq_params) True False True fresh_process) = -1 \<and>
   \<not> is_initialized (adapter (snd (crypto_adapter_init (Some pq_params) True False True
                                   fresh_process))) \<and>
   \<not> qzkp_initialized (snd (crypto_adapter_init (Some pq_params) True False True
                                   fresh_process)) \<and>
   calls (snd (crypto_adapter_init (Some pq_params) True False True fresh_process))
     = [QZKP_INIT, KYBER_INIT, QZKP_CLEANUP]"
  using
    crypto_adapter_init_behaviour [of "Some pq_params" True True True fresh_process
      "fst (crypto_adapter_init (Some pq_params) True True True fresh_process)"
      "snd (crypto_adapter_init (Some pq_params) True True True fresh_process)" pq_params]
    crypto_adapter_init_behaviour [of "Some pq_params" True False True fresh_process
      "fst (crypto_adapter_init (Some pq_params) True False True fresh_process)"
      "snd (crypto_adapter_init (Some pq_params) True False True fresh_process)" pq_params]
  by (simp add: fresh_process_def pq_params_def)

text \<open>
  C8 as stated fails: the claim has the 16-byte key id zero-wiped before its memory is
  released. For the sample key, the block of the symmetric key is released holding 32
  zero bytes, and the block of the key id is released holding the id.
\<close>

theorem crypto_free_key_counterexample:
  "released (snd (crypto_free_key (Some sample_symmetric_key) sample_heap))
     = [(2, replicate 32 0), (1, [1, 2, 3, 4, 5, 6, 7, 8, 9, 10, 11, 12, 13, 14, 15, 16])]"
  by (simp add: crypto_free_key_def sample_symmetric_key_def sample_heap_def sample_key_id_def
        heap_free_def heap_memset_def)

text \<open>
  C8, amended. After \<^verbatim>\<open>crypto_free_key\<close> the key struct has the all-zero value (which
  holds no byte of a Kyber or Falcon key pair any more). A symmetric key whose block is
  live, distinct from the id block and not longer than \<^verbatim>\<open>key_size\<close> is overwritten with
  zeros and then released, as the last release. The block of the key id is released with
  the bytes it held: it is not wiped. For a key of another kind only the id block is
  released.
\<close>

theorem crypto_free_key_effect:
  assumes "crypto_free_key (Some k) hp = (k', hp')"
  shows "k' = Some zeroed_key
       \<and> (\<forall>q ib. key_id k = Some q \<and> mem hp q = Some ib \<longrightarrow>
            (q, ib) \<in> set (released hp') \<and> mem hp' q = None)
       \<and> (\<forall>p n bs. key_data k = Symmetric (Some p) n \<and> mem hp p = Some bs \<and>
                   key_id k \<noteq> Some p \<and> length bs \<le> n \<longrightarrow>
            hd (released hp') = (p, replicate (length bs) 0) \<and> mem hp' p = None)
       \<and> ((\<forall>p n. key_data k \<noteq> Symmetric (Some p) n) \<longrightarrow>
            hp' = (case key_id k of None \<Rightarrow> hp | Some q \<Rightarrow> heap_free q hp))"
proof -
  define hp1 where "hp1 = (case key_id k of None \<Rightarrow> hp | Some q \<Rightarrow> heap_free q hp)"
  have k': "k' = Some zeroed_key"
    using assms by (simp add: crypto_free_key_def Let_def)
  have hp': "hp' = (case key_data k of
                      Symmetric (Some p) n \<Rightarrow> heap_free p (heap_memset p 0 n hp1)
                    | _ \<Rightarrow> hp1)"
    unfolding hp1_def using assms by (auto simp: crypto_free_key_def Let_def)
  have sub: "set (released hp1) \<subseteq> set (released hp')"
    unfolding hp'
    by (auto simp: heap_free_def heap_memset_def
             split: key_data.splits option.splits)
  have idpart: "(q, ib) \<in> set (released hp') \<and> mem hp' q = None"
    if "key_id k = Some q" "mem hp q = Some ib" for q ib
  proof -
    from that have "(q, ib) \<in> set (released hp1)" "mem hp1 q = None"
      by (simp_all add: hp1_def heap_free_def)
    moreover from this(2) have "mem hp' q = None"
      unfolding hp'
      by (auto simp: heap_free_def heap_memset_def split: key_data.splits option.splits)
    ultimately show ?thesis using sub by blast
  qed
  have sympart: "hd (released hp') = (p, replicate (length bs) 0) \<and> mem hp' p = None"
    if "key_data k = Symmetric (Some p) n" "mem hp p = Some bs" "key_id k \<noteq> Some p"
       "length bs \<le> n" for p n bs
  proof -
    from that(2,3) have "mem hp1 p = Some bs"
      by (auto simp: hp1_def heap_free_def split: option.splits)
    with that(1,4) show ?thesis
      unfolding hp' by (simp add: heap_free_def heap_memset_def)
  qed
  have other: "hp' = hp1" if "\<forall>p n. key_data k \<noteq> Symmetric (Some p) n"
    using that unfolding hp' by (auto split: key_data.splits option.splits)
  have a: "\<forall>q ib. key_id k = Some q \<and> mem hp q = Some ib \<longrightarrow>
            (q, ib) \<in> set (released hp') \<and> mem hp' q = None"
    using idpart by blast
  have b: "\<forall>p n bs. key_data k = Symmetric (Some p) n \<and> mem hp p = Some bs \<and>
                   key_id k \<noteq> Some p \<and> length bs \<le> n \<longrightarrow>
            hd (released hp') = (p, replicate (length bs) 0) \<and> mem hp' p = None"
    using sympart by blast
  have c: "(\<forall>p n. key_data k \<noteq> Symmetric (Some p) n) \<longrightarrow>
            hp' = (case key_id k of None \<Rightarrow> hp | Some q \<Rightarrow> heap_free q hp)"
    using other unfolding hp1_def by blast
  from k' a b c show ?thesis by (intro conjI)
qed

theorem crypto_free_key_effect_witness:
  "crypto_free_key (Some sample_symmetric_key) sample_heap
     = (Some zeroed_key,
        \<lparr>mem = Map.empty, released = [(2, replicate 32 0), (1, sample_key_id)]\<rparr>)
   \<and> key_id sample_symmetric_key = Some 1 \<and> mem sample_heap 1 = Some sample_key_id
   \<and> key_data sample_symmetric_key = Symmetric (Some 2) 32
   \<and> mem sample_heap 2 = Some (replicate 32 0x5A)"
proof -
  have a: "crypto_free_key (Some sample_symmetric_key) sample_heap
     = (Some zeroed_key,
        \<lparr>mem = Map.empty, released = [(2, replicate 32 0), (1, sample_key_id)]\<rparr>)"
    by (simp add: crypto_free_key_def sample_symmetric_key_def sample_heap_def
          heap_free_def heap_memset_def fun_eq_iff)
  from crypto_free_key_effect [OF a] a show ?thesis
    by (simp add: sample_symmetric_key_def sample_heap_def)
qed

text \<open>
  C9. With the adapter initialised and the pointer arguments given, a key whose
  expiration time is non-zero and earlier than the current time makes
  \<^verbatim>\<open>crypto_sign_message\<close> (for a Falcon key) and \<^verbatim>\<open>crypto_establish_key\<close> (for a Kyber key)
  return \<open>-3\<close>, with no signature made and nothing written through any output pointer.
  That code is distinct from the three others the claim names: an uninitialised adapter
  gives \<open>-1\<close>, a key of the wrong kind \<open>-2\<close>, and a signature buffer below 666 bytes (for a
  key that has not expired) \<open>-4\<close>.
\<close>

theorem expired_key_refused:
  assumes "is_initialized st"
    and "0 < expiration_time k" and "expiration_time k < now"
  shows "crypto_sign_message H hmac st falcon_ready True (Some capacity) (Some msg) message_len
           (Some (k\<lparr>key_data := Falcon fkp\<rparr>)) now rand evp_ok = Inl (-3)
       \<and> crypto_establish_key H st kyber_ready True True ciphertext ciphertext_len
           (Some (k\<lparr>key_data := Kyber kkp\<rparr>)) now alloc_ok rand' = (-3, nothing_written)
       \<and> crypto_sign_message H hmac (st\<lparr>is_initialized := False\<rparr>) falcon_ready True
           (Some capacity) (Some msg) message_len (Some (k\<lparr>key_data := Falcon fkp\<rparr>)) now rand
           evp_ok = Inl (-1)
       \<and> crypto_establish_key H (st\<lparr>is_initialized := False\<rparr>) kyber_ready True True ciphertext
           ciphertext_len (Some (k\<lparr>key_data := Kyber kkp\<rparr>)) now alloc_ok rand'
           = (-1, nothing_written)
       \<and> crypto_sign_message H hmac st falcon_ready True (Some capacity) (Some msg) message_len
           (Some (k\<lparr>key_data := Kyber kkp\<rparr>)) now rand evp_ok = Inl (-2)
       \<and> crypto_establish_key H st kyber_ready True True ciphertext ciphertext_len
           (Some (k\<lparr>key_data := Falcon fkp\<rparr>)) now alloc_ok rand' = (-2, nothing_written)
       \<and> crypto_sign_message H hmac st falcon_ready True (Some 0) (Some msg) message_len
           (Some (k\<lparr>key_data := Falcon fkp, expiration_time := 0\<rparr>)) now rand evp_ok
           = Inl (-4)"
  using assms
  by (simp add: crypto_sign_message_def crypto_establish_key_def key_expired_def
        FALCON_SIGNATURE_MAX_BYTES_def)

theorem expired_key_refused_witness:
  "is_initialized ready_adapter \<and> 0 < expiration_time expired_key \<and>
   expiration_time expired_key < 1003 \<and>
   crypto_sign_message toy_digest toy_mac ready_adapter True True (Some 666)
      (Some (bytes_of ''hello world'')) 11
      (Some (expired_key\<lparr>key_data := Falcon \<lparr>falcon_public_key = replicate 897 0,
                                               falcon_secret_key = replicate 1281 0\<rparr>\<rparr>))
      1003 (Some (replicate 16 0)) True = Inl (-3) \<and>
   crypto_establish_key toy_digest ready_adapter True True True True True
      (Some (expired_key\<lparr>key_data := Kyber \<lparr>kyber_public_key = replicate 1184 0,
                                              kyber_secret_key = replicate 2400 0\<rparr>\<rparr>))
      1003 True (Some (replicate 32 0)) = (-3, nothing_written)"
  using expired_key_refused [of ready_adapter expired_key 1003 toy_digest toy_mac True 666
      "bytes_of ''hello world''" 11
      "\<lparr>falcon_public_key = replicate 897 0, falcon_secret_key = replicate 1281 0\<rparr>"
      "Some (replicate 16 0)" True True True True
      "\<lparr>kyber_public_key = replicate 1184 0, kyber_secret_key = replicate 2400 0\<rparr>"
      True "Some (replicate 32 0)"]
  by (simp add: ready_adapter_def expired_key_def)

lemma qzkp_generate_proof_fields:
  assumes "qzkp_generate_proof H qzkp_ready secret secret_size entropy entropy_size alloc_ok rand
             = Some p"
  shows "commitment p \<noteq> None \<and> challenge p \<noteq> None \<and> response p \<noteq> None
       \<and> commit_size p = 32 \<and> challenge_size p = 32 \<and> response_size p = 32"
  using assms
  by (auto simp: qzkp_generate_proof_def Let_def SHA256_DIGEST_LENGTH_def
           split: if_splits option.splits)

lemma proof_or_mock_fields:
  assumes "proof_or_mock H qzkp_ready secret secret_size public_input public_input_size
             qzkp_alloc_ok rand_challenge mock_alloc_ok = Some p"
  shows "commitment p \<noteq> None \<and> challenge p \<noteq> None \<and> response p \<noteq> None
       \<and> commit_size p = 32 \<and> challenge_size p \<in> {16, 32} \<and> response_size p \<in> {32, 64}"
proof (cases "qzkp_generate_proof H qzkp_ready secret secret_size public_input
                public_input_size qzkp_alloc_ok rand_challenge")
  case None
  with assms have "p = mock_proof"
    by (simp add: proof_or_mock_def split: if_splits)
  then show ?thesis by (simp add: mock_proof_def)
next
  case (Some p0)
  with assms have "p = p0" by (simp add: proof_or_mock_def)
  with qzkp_generate_proof_fields [OF Some] show ?thesis by simp
qed

lemma append_signature_fields:
  "commitment (append_signature H hmac falcon_ready kp rand_nonce evp_ok p) = commitment p
   \<and> commit_size (append_signature H hmac falcon_ready kp rand_nonce evp_ok p) = commit_size p
   \<and> challenge (append_signature H hmac falcon_ready kp rand_nonce evp_ok p) = challenge p
   \<and> challenge_size (append_signature H hmac falcon_ready kp rand_nonce evp_ok p)
       = challenge_size p
   \<and> response (append_signature H hmac falcon_ready kp rand_nonce evp_ok p) \<noteq> None
   \<and> response_size p + 8 + 32
       \<le> response_size (append_signature H hmac falcon_ready kp rand_nonce evp_ok p)"
proof (cases "falcon_sign H hmac falcon_ready True True
                (Some (H (take (commit_size p) (the (commitment p))
                    @ take (challenge_size p) (the (challenge p))
                    @ take (response_size p) (the (response p)))))
                SHA256_DIGEST_LENGTH (Some (falcon_secret_key kp)) rand_nonce evp_ok")
  case (Inl e)
  then show ?thesis by (simp add: append_signature_def Let_def sizeof_size_t_def)
next
  case (Inr r)
  then have "snd r = 49"
    by (auto simp: falcon_sign_def Let_def split: if_splits option.splits)
  with Inr show ?thesis
    by (cases r) (simp add: append_signature_def Let_def sizeof_size_t_def)
qed

text \<open>
The first half of C3: what the signing block stores in the response field.
\<close>

lemma append_signature_response:
  assumes "falcon_sign H hmac falcon_ready True True
             (Some (H (take (commit_size p) (the (commitment p))
                       @ take (challenge_size p) (the (challenge p))
                       @ take (response_size p) (the (response p)))))
             SHA256_DIGEST_LENGTH (Some (falcon_secret_key kp)) rand_nonce evp_ok
           = Inr (sig, n)"
  shows "response (append_signature H hmac falcon_ready kp rand_nonce evp_ok p)
           = Some (take (response_size p) (the (response p)) @ size_t_bytes n @ sig)
       \<and> response_size (append_signature H hmac falcon_ready kp rand_nonce evp_ok p)
           = response_size p + sizeof_size_t + n"
  using assms by (simp add: append_signature_def Let_def)

lemma crypto_generate_zkproof_signed:
  assumes "crypto_generate_zkproof H hmac st qzkp_ready falcon_ready proof_out secret secret_size
             public_input public_input_size (Some k) qzkp_alloc_ok rand_challenge
             mock_alloc_ok sign_alloc_ok rand_nonce evp_ok = Inr P"
    and "use_pq_crypto st" and "key_data k = Falcon kp"
  obtains p where
    "proof_or_mock H qzkp_ready secret secret_size public_input public_input_size
       qzkp_alloc_ok rand_challenge mock_alloc_ok = Some p"
    and "P = append_signature H hmac falcon_ready kp rand_nonce evp_ok p"
    and "is_initialized st"
  using assms
  by (auto simp: crypto_generate_zkproof_def split: if_splits option.splits)

text \<open>
  C3. The claim has \<^verbatim>\<open>crypto_verify_zkproof\<close> split the response at the signature length,
  verify the signature, and reject a proof against any public input other than the one
  it was generated with. The code never calls \<^verbatim>\<open>falcon_verify\<close>: it halves the response,
  discards the digest, and rejects a public input only when it has the 29 bytes of the
  literal test input and differs from it. So every proof that \<^verbatim>\<open>crypto_generate_zkproof\<close>
  returns for a Falcon key is accepted, under that key, against every public input
  whose size is not 29, whatever input it was generated with.
\<close>

theorem crypto_verify_zkproof_accepts_any_input:
  assumes "crypto_generate_zkproof H hmac st qzkp_ready falcon_ready proof_out secret secret_size
             public_input public_input_size (Some k) qzkp_alloc_ok rand_challenge
             mock_alloc_ok sign_alloc_ok rand_nonce evp_ok = Inr P"
    and "use_pq_crypto st" and "key_data k = Falcon kp"
    and "other_size \<noteq> 29"
  shows "crypto_verify_zkproof H st (Some P) (Some other_input) other_size (Some k)
           (Some params) True = 1"
proof -
  from assms(1-3) obtain p where
    p: "proof_or_mock H qzkp_ready secret secret_size public_input public_input_size
          qzkp_alloc_ok rand_challenge mock_alloc_ok = Some p"
    and P: "P = append_signature H hmac falcon_ready kp rand_nonce evp_ok p"
    and init: "is_initialized st"
    by (rule crypto_generate_zkproof_signed)
  note f = proof_or_mock_fields [OF p]
  note a = append_signature_fields [of H hmac falcon_ready kp rand_nonce evp_ok p]
  have shape: "commitment P \<noteq> None" "challenge P \<noteq> None" "response P \<noteq> None"
    "commit_size P \<noteq> 0" "challenge_size P \<noteq> 0" "response_size P \<noteq> 0"
    "\<not> response_size P < 32"
    using f a unfolding P by auto
  have len: "length (bytes_of ''public_input_for_verification'') = 29"
    by (simp add: bytes_of_def)
  show ?thesis
    using init shape assms(2-4) len
    by (simp add: crypto_verify_zkproof_def Let_def)
qed

theorem crypto_verify_zkproof_accepts_any_input_witness:
  "\<exists>P. crypto_generate_zkproof toy_digest toy_mac ready_adapter True True True
          (Some (bytes_of ''s3cret'')) 6 (Some (bytes_of ''pub'')) 3
          (Some (expired_key\<lparr>key_data := Falcon \<lparr>falcon_public_key = replicate 897 0,
                                                   falcon_secret_key = replicate 1281 0\<rparr>\<rparr>))
          True (Some (replicate 32 7)) True True (Some (replicate 16 9)) True = Inr P
     \<and> use_pq_crypto ready_adapter \<and> (12::nat) \<noteq> 29
     \<and> crypto_verify_zkproof toy_digest ready_adapter (Some P)
          (Some (bytes_of ''pub-tampered'')) 12
          (Some (expired_key\<lparr>key_data := Falcon \<lparr>falcon_public_key = replicate 897 0,
                                                   falcon_secret_key = replicate 1281 0\<rparr>\<rparr>))
          (Some ()) True = 1"
proof -
  let ?kp = "\<lparr>falcon_public_key = replicate 897 0, falcon_secret_key = replicate 1281 0\<rparr>"
  let ?k = "expired_key\<lparr>key_data := Falcon ?kp\<rparr>"
  obtain p where p: "proof_or_mock toy_digest True (Some (bytes_of ''s3cret'')) 6
      (Some (bytes_of ''pub'')) 3 True (Some (replicate 32 7)) True = Some p"
    by (simp add: proof_or_mock_def qzkp_generate_proof_def Let_def)
  define P where "P = append_signature toy_digest toy_mac True ?kp (Some (replicate 16 9)) True p"
  have g: "crypto_generate_zkproof toy_digest toy_mac ready_adapter True True True
          (Some (bytes_of ''s3cret'')) 6 (Some (bytes_of ''pub'')) 3 (Some ?k)
          True (Some (replicate 32 7)) True True (Some (replicate 16 9)) True = Inr P"
    by (simp add: crypto_generate_zkproof_def p P_def ready_adapter_def)
  have u: "use_pq_crypto ready_adapter" by (simp add: ready_adapter_def)
  have kd: "key_data ?k = Falcon ?kp" by simp
  have n: "(12::nat) \<noteq> 29" by simp
  have v: "crypto_verify_zkproof toy_digest ready_adapter (Some P)
          (Some (bytes_of ''pub-tampered'')) 12 (Some ?k) (Some ()) True = 1"
    by (rule crypto_verify_zkproof_accepts_any_input [OF g u kd n])
  show ?thesis
    by (rule exI [of _ P]) (intro conjI g u n v)
qed

end
